theory Spec2Isabelle
  imports Complex_Main
begin

section \<open>Html5QrcodeScanner: data model\<close>

text \<open>
  The scanner of \<^verbatim>\<open>html5-qrcode-scanner.ts\<close> is a class whose methods mutate its fields
  and the DOM elements they hold, and whose asynchronous steps are promise chains. The
  embedding is a record of the fields, one HOL function per method, event listener and
  promise callback, a list of the promises that are still pending, and a trace of the calls
  that leave the scanner (logger, caller callbacks, decode engine).
\<close>

datatype Html5QrcodeScanType = SCAN_TYPE_CAMERA | SCAN_TYPE_FILE

datatype Html5QrcodeScannerStatus =
  STATUS_DEFAULT | STATUS_SUCCESS | STATUS_WARNING | STATUS_REQUESTING_PERMISSION

text \<open>What a \<^verbatim>\<open>throw\<close> carries: a thrown string, or the engine's TypeError on a property
  read from \<^verbatim>\<open>undefined\<close>, or the DOM's NotFoundError.\<close>

datatype error = Thrown string | TypeError string | NotFoundError | ConfigurationError

text \<open>\<^verbatim>\<open>Html5QrcodeConstants\<close> is imported from \<^verbatim>\<open>./core\<close>; its values are a parameter.\<close>

record Html5QrcodeConstants =
  SCAN_DEFAULT_FPS :: nat
  DEFAULT_REMEMBER_LAST_CAMERA_USED :: bool
  DEFAULT_SUPPORTED_SCAN_TYPE :: "Html5QrcodeScanType list"

text \<open>\<^verbatim>\<open>Html5QrcodeScannerStrings\<close> is imported from \<^verbatim>\<open>./strings\<close>; its texts are a parameter.\<close>

record Html5QrcodeScannerStrings =
  lastMatch :: "string \<Rightarrow> string"
  cameraPermissionRequesting :: string
  noCameraFound :: string
  cameraPermissionTitle :: string
  loadingImage :: string
  scanButtonStartScanningText :: string
  scanButtonStopScanningText :: string
  scanButtonScanningStarting :: string
  textIfCameraScanSelected :: string
  textIfFileScanSelected :: string

text \<open>The fields of \<^verbatim>\<open>Html5QrcodeScannerConfig\<close> that the scanner itself reads; an optional
  field is an option, \<^verbatim>\<open>undefined\<close> being \<open>None\<close>.\<close>

record Html5QrcodeScannerConfig =
  fps :: "nat option"
  rememberLastUsedCamera :: "bool option"
  supportedScanTypes :: "Html5QrcodeScanType list option"
  showTorchButtonIfSupported :: "bool option"
  showZoomSliderIfSupported :: "bool option"
  defaultZoomValueIfSupported :: "real option"

text \<open>A DOM element, by the properties the scanner writes.\<close>

record HTMLElement =
  innerText :: string
  display :: string
  disabled :: bool
  opacity :: string
  background :: string
  color :: string

definition createElement :: HTMLElement where
  "createElement =
     \<lparr>innerText = [], display = [], disabled = False, opacity = [], background = [],
      color = []\<rparr>"

text \<open>The container element: whether it has children (\<^verbatim>\<open>innerHTML\<close> is not empty) and its
  border style.\<close>

record Container =
  hasChildren :: bool
  border :: string

datatype ElementOrId = ElementId string | Element "Container option"

record CameraDevice =
  camera_id :: string
  camera_label :: string

text \<open>\<^verbatim>\<open>CameraCapabilities\<close> of the running track, imported from \<^verbatim>\<open>./camera/core\<close>: what
  \<^verbatim>\<open>zoomFeature()\<close> and \<^verbatim>\<open>torchFeature()\<close> answer.\<close>

record CameraCapabilities =
  zoom_isSupported :: bool
  zoom_min :: real
  zoom_max :: real
  zoom_step :: real
  torch_isSupported :: bool

text \<open>Modelled from the spec: \<^verbatim>\<open>PersistedDataManager\<close> (\<^verbatim>\<open>./storage\<close>) is not among the
  sources. It persists whether camera permission was granted and the last used camera id,
  with get, set and reset operations and no other logic.\<close>

record PersistedDataManager =
  hasPermission :: bool
  lastUsedCameraId :: "string option"

definition PersistedDataManager_reset :: PersistedDataManager where
  "PersistedDataManager_reset = \<lparr>hasPermission = False, lastUsedCameraId = None\<rparr>"

text \<open>The decode engine \<^verbatim>\<open>Html5Qrcode\<close>, by the one property the scanner reads.\<close>

record Html5Qrcode =
  isScanning :: bool

text \<open>\<^verbatim>\<open>FileSelectionUi\<close> (\<^verbatim>\<open>./ui/scanner/file-selection-ui\<close>): shown or hidden, and the
  pending file selection that \<^verbatim>\<open>resetValue()\<close> clears.\<close>

record FileSelectionUi =
  fileShown :: bool
  fileValue :: "string option"

text \<open>\<^verbatim>\<open>CameraSelectionUi\<close>: the select element over the enumerated cameras.\<close>

record CameraSelectionUi =
  options :: "CameraDevice list"
  selectedValue :: string
  selectDisabled :: bool

text \<open>\<^verbatim>\<open>CameraZoomUi\<close>: the slider; \<open>zoomValues\<close> is what \<^verbatim>\<open>setValues(min, max, value, step)\<close>
  received, \<open>zoomCallback\<close> whether a value-change callback is installed.\<close>

record CameraZoomUi =
  zoomShown :: bool
  zoomValues :: "(real \<times> real \<times> real \<times> real) option"
  zoomCallback :: bool

datatype ScanRegion = RegionEmpty | RegionCameraImage | RegionFileImage

text \<open>The promises the scanner waits for, each named by the call that made it.\<close>

datatype promise =
    HasPermissions_createPermissionsUi
  | HasPermissions_onSwap
  | GetCameras "nat option"
  | Html5Qrcode_start
  | Html5Qrcode_stop
  | Html5Qrcode_scanFileV2
  | CameraScanImage_onload
  | FileScanImage_onload

text \<open>The calls that leave the scanner, in the order they are made.\<close>

datatype effect =
    LogError string
  | Uncaught error
  | CallerSuccessCallback string string
  | CallerErrorCallback string
  | Call_getCameras
  | Call_hasPermissions
  | Call_start string
  | Call_stop
  | Call_clear
  | Call_scanFileV2 string
  | Call_zoomApply real
  | PermissionButton_click

text \<open>
  The fields of the class, and the elements its closures hold. The fields that the source
  declares \<^verbatim>\<open>| null\<close> and that \<^verbatim>\<open>createBasicLayout\<close> assigns are read only by the listeners
  and callbacks that \<^verbatim>\<open>createBasicLayout\<close> registers, so the record holds the element where
  the source holds a reference that is never null when read. \<open>html5Qrcode\<close> and
  \<open>permissionButton\<close> are tested against null by the source and stay options. The
  \<open>requestPermissionButtons\<close> are the buttons appended to \<^verbatim>\<open>requestPermissionContainer\<close>;
  a button is referred to by its position. \<open>cameraSelectUi\<close> is \<open>None\<close> until
  \<^verbatim>\<open>renderCameraSelection\<close> has created the camera controls. \<open>callerSuccessCallback\<close> and
  \<open>callerErrorCallback\<close> say whether \<^verbatim>\<open>render\<close> was given a callback.
\<close>

record Html5QrcodeScanner =
  container :: Container
  config :: Html5QrcodeScannerConfig
  verbose :: bool
  currentScanType :: Html5QrcodeScanType
  sectionSwapAllowed :: bool
  persistedDataManager :: PersistedDataManager
  scanTypeSelector :: "Html5QrcodeScanType list"
  html5Qrcode :: "Html5Qrcode option"
  callerSuccessCallback :: bool
  callerErrorCallback :: bool
  lastMatchFound :: "string option"
  cameraScanImage :: bool
  fileScanImage :: bool
  fileSelectionUi :: FileSelectionUi
  scpCameraScanRegion :: HTMLElement
  permissionButton :: "HTMLElement option"
  headerMessageContainer :: HTMLElement
  qrCodeScanRegion :: ScanRegion
  switchScanTypeLink :: HTMLElement
  requestPermissionContainerAttached :: bool
  requestPermissionButtons :: "HTMLElement list"
  cameraSelectUi :: "CameraSelectionUi option"
  cameraZoomUi :: CameraZoomUi
  cameraActionStartButton :: HTMLElement
  cameraActionStopButton :: HTMLElement
  torchButton :: "bool option"
  pending :: "promise list"
  trace :: "effect list"

section \<open>Collaborators\<close>

text \<open>Modelled from the spec: \<^verbatim>\<open>ScanTypeSelector\<close> (\<^verbatim>\<open>./ui/scanner/scan-type-selector\<close>) is
  not among the sources. It holds the ordered set of supported scan types; construction
  fails when a set that is provided is empty or has duplicates, and no set means the library
  default; the default type is the first element, and there is more than one type iff the
  set has more than one element. Camera scan is required when the set has the camera type.\<close>

definition ScanTypeSelector_new ::
  "Html5QrcodeConstants \<Rightarrow> Html5QrcodeScanType list option \<Rightarrow> error + Html5QrcodeScanType list"
where
  "ScanTypeSelector_new K requested =
     (case requested of
        None \<Rightarrow> Inr (DEFAULT_SUPPORTED_SCAN_TYPE K)
      | Some ts \<Rightarrow> if ts = [] \<or> \<not> distinct ts then Inl ConfigurationError else Inr ts)"

definition isCameraScanType :: "Html5QrcodeScanType \<Rightarrow> bool" where
  "isCameraScanType t = (t = SCAN_TYPE_CAMERA)"

definition isFileScanType :: "Html5QrcodeScanType \<Rightarrow> bool" where
  "isFileScanType t = (t = SCAN_TYPE_FILE)"

definition hasMoreThanOneScanType :: "Html5QrcodeScanner \<Rightarrow> bool" where
  "hasMoreThanOneScanType s = (1 < length (scanTypeSelector s))"

definition isCameraScanRequired :: "Html5QrcodeScanner \<Rightarrow> bool" where
  "isCameraScanRequired s = List.member (scanTypeSelector s) SCAN_TYPE_CAMERA"

text \<open>Modelled from the spec: \<^verbatim>\<open>clip\<close> (\<^verbatim>\<open>./core\<close>) is not among the sources. It clamps a
  value into \<open>[minValue, maxValue]\<close>.\<close>

definition clip :: "real \<Rightarrow> real \<Rightarrow> real \<Rightarrow> real" where
  "clip v minValue maxValue =
     (if v > maxValue then maxValue else if v < minValue then minValue else v)"

definition setHasPermission :: "bool \<Rightarrow> Html5QrcodeScanner \<Rightarrow> Html5QrcodeScanner" where
  "setHasPermission b s =
     s\<lparr>persistedDataManager := (persistedDataManager s)\<lparr>hasPermission := b\<rparr>\<rparr>"

definition hasCameraPermissions :: "Html5QrcodeScanner \<Rightarrow> bool" where
  "hasCameraPermissions s = hasPermission (persistedDataManager s)"

definition setLastUsedCameraId :: "string \<Rightarrow> Html5QrcodeScanner \<Rightarrow> Html5QrcodeScanner" where
  "setLastUsedCameraId cameraId s =
     s\<lparr>persistedDataManager := (persistedDataManager s)\<lparr>lastUsedCameraId := Some cameraId\<rparr>\<rparr>"

definition resetLastUsedCameraId :: "Html5QrcodeScanner \<Rightarrow> Html5QrcodeScanner" where
  "resetLastUsedCameraId s =
     s\<lparr>persistedDataManager := (persistedDataManager s)\<lparr>lastUsedCameraId := None\<rparr>\<rparr>"

definition getLastUsedCameraId :: "Html5QrcodeScanner \<Rightarrow> string option" where
  "getLastUsedCameraId s = lastUsedCameraId (persistedDataManager s)"

text \<open>\<^verbatim>\<open>CameraSelectionUi.create\<close>: a select element shows its first option.\<close>

definition CameraSelectionUi_create :: "CameraDevice list \<Rightarrow> CameraSelectionUi" where
  "CameraSelectionUi_create cameras =
     \<lparr>options = cameras,
      selectedValue = (case cameras of [] \<Rightarrow> [] | c # _ \<Rightarrow> camera_id c),
      selectDisabled = False\<rparr>"

definition hasSingleItem :: "CameraSelectionUi \<Rightarrow> bool" where
  "hasSingleItem ui = (length (options ui) = 1)"

definition hasValue :: "CameraSelectionUi \<Rightarrow> string \<Rightarrow> bool" where
  "hasValue ui v = List.member (map camera_id (options ui)) v"

text \<open>What \<^verbatim>\<open>element.innerText = error\<close> shows for a caught value.\<close>

fun error_text :: "error \<Rightarrow> string" where
  "error_text (Thrown m) = m"
| "error_text (TypeError m) = ''TypeError: '' @ m"
| "error_text NotFoundError = ''NotFoundError''"
| "error_text ConfigurationError = ''ConfigurationError''"

definition emit :: "effect \<Rightarrow> Html5QrcodeScanner \<Rightarrow> Html5QrcodeScanner" where
  "emit e s = s\<lparr>trace := trace s @ [e]\<rparr>"

definition await :: "promise \<Rightarrow> Html5QrcodeScanner \<Rightarrow> Html5QrcodeScanner" where
  "await p s = s\<lparr>pending := pending s @ [p]\<rparr>"

text \<open>A settled promise, and the chain \<^verbatim>\<open>p.then(f).catch(g)\<close>: \<open>g\<close> receives the rejection of
  \<open>p\<close> and also what \<open>f\<close> throws, after the writes \<open>f\<close> made before throwing.\<close>

datatype 'a settled = Resolved 'a | Rejected error

definition then_catch ::
  "('a \<Rightarrow> Html5QrcodeScanner \<Rightarrow> error option \<times> Html5QrcodeScanner) \<Rightarrow>
   (error \<Rightarrow> Html5QrcodeScanner \<Rightarrow> Html5QrcodeScanner) \<Rightarrow>
   'a settled \<Rightarrow> Html5QrcodeScanner \<Rightarrow> Html5QrcodeScanner"
where
  "then_catch f g settled s =
     (case settled of
        Rejected e \<Rightarrow> g e s
      | Resolved v \<Rightarrow> (case f v s of (None, s') \<Rightarrow> s' | (Some e, s') \<Rightarrow> g e s'))"

section \<open>Construction\<close>

definition validateInputAsStringId ::
  "(string \<times> Container) list \<Rightarrow> string \<Rightarrow> error + Container"
where
  "validateInputAsStringId document elementId =
     (case map_of document elementId of
        None \<Rightarrow> Inl (Thrown (''HTML Element with id='' @ elementId @ '' not found''))
      | Some element \<Rightarrow> Inr element)"

definition validateInputAsHTMLElement :: "Container option \<Rightarrow> error + Container" where
  "validateInputAsHTMLElement element =
     (case element of
        None \<Rightarrow> Inl (Thrown ''HTML Element is not valid'')
      | Some e \<Rightarrow> Inr e)"

definition createConfig ::
  "Html5QrcodeConstants \<Rightarrow> Html5QrcodeScannerConfig option \<Rightarrow> Html5QrcodeScannerConfig"
where
  "createConfig K cfg =
     (case cfg of
        Some c \<Rightarrow>
          (let c1 = (if fps c = None \<or> fps c = Some 0
                     then c\<lparr>fps := Some (SCAN_DEFAULT_FPS K)\<rparr> else c);
               c2 = (if rememberLastUsedCamera c1 \<noteq> Some (\<not> DEFAULT_REMEMBER_LAST_CAMERA_USED K)
                     then c1\<lparr>rememberLastUsedCamera := Some (DEFAULT_REMEMBER_LAST_CAMERA_USED K)\<rparr>
                     else c1);
               c3 = (if supportedScanTypes c2 = None
                     then c2\<lparr>supportedScanTypes := Some (DEFAULT_SUPPORTED_SCAN_TYPE K)\<rparr>
                     else c2)
           in c3)
      | None \<Rightarrow>
          \<lparr>fps = Some (SCAN_DEFAULT_FPS K),
           rememberLastUsedCamera = Some (DEFAULT_REMEMBER_LAST_CAMERA_USED K),
           supportedScanTypes = Some (DEFAULT_SUPPORTED_SCAN_TYPE K),
           showTorchButtonIfSupported = None,
           showZoomSliderIfSupported = None,
           defaultZoomValueIfSupported = None\<rparr>)"

text \<open>
  The constructor. \<open>document\<close> is what \<^verbatim>\<open>document.getElementById\<close> finds, \<open>stored\<close> what
  \<^verbatim>\<open>new PersistedDataManager()\<close> loads. When a config object \<open>cfg\<close> is passed, \<^verbatim>\<open>createConfig\<close>
  completes that object in place and returns it, so the constructor's last read,
  \<^verbatim>\<open>config!.rememberLastUsedCamera\<close>, sees the completed value; when \<^verbatim>\<open>undefined\<close> is passed,
  \<^verbatim>\<open>createConfig\<close> returns a new object and the same read is a property read from
  \<^verbatim>\<open>undefined\<close>, which throws. A set of scan types with no first element has no default type
  and is refused.
\<close>

definition Html5QrcodeScanner_new ::
  "Html5QrcodeConstants \<Rightarrow> (string \<times> Container) list \<Rightarrow> PersistedDataManager \<Rightarrow>
   ElementOrId \<Rightarrow> Html5QrcodeScannerConfig option \<Rightarrow> bool option \<Rightarrow>
   error + Html5QrcodeScanner"
where
  "Html5QrcodeScanner_new K document stored elementOrId cfg verbose' =
     (case (case elementOrId of
              ElementId i \<Rightarrow> validateInputAsStringId document i
            | Element e \<Rightarrow> validateInputAsHTMLElement e) of
        Inl err \<Rightarrow> Inl err
      | Inr container' \<Rightarrow>
          (let config' = createConfig K cfg in
           case ScanTypeSelector_new K (supportedScanTypes config') of
             Inl err \<Rightarrow> Inl err
           | Inr [] \<Rightarrow> Inl ConfigurationError
           | Inr (defaultScanType # others) \<Rightarrow>
               (case cfg of
                  None \<Rightarrow>
                    Inl (TypeError
                      ''Cannot read properties of undefined (reading rememberLastUsedCamera)'')
                | Some _ \<Rightarrow>
                    Inr \<lparr>container = container',
                         config = config',
                         verbose = (verbose' = Some True),
                         currentScanType = defaultScanType,
                         sectionSwapAllowed = True,
                         persistedDataManager =
                           (if rememberLastUsedCamera config' \<noteq> Some True
                            then PersistedDataManager_reset else stored),
                         scanTypeSelector = defaultScanType # others,
                         html5Qrcode = None,
                         callerSuccessCallback = False,
                         callerErrorCallback = False,
                         lastMatchFound = None,
                         cameraScanImage = False,
                         fileScanImage = False,
                         fileSelectionUi = \<lparr>fileShown = False, fileValue = None\<rparr>,
                         scpCameraScanRegion = createElement,
                         permissionButton = None,
                         headerMessageContainer = createElement,
                         qrCodeScanRegion = RegionEmpty,
                         switchScanTypeLink = createElement,
                         requestPermissionContainerAttached = False,
                         requestPermissionButtons = [],
                         cameraSelectUi = None,
                         cameraZoomUi = \<lparr>zoomShown = False, zoomValues = None, zoomCallback = False\<rparr>,
                         cameraActionStartButton = createElement,
                         cameraActionStopButton = createElement,
                         torchButton = None,
                         pending = [],
                         trace = []\<rparr>)))"

section \<open>Header message, swap link and placeholder images\<close>

definition resetHeaderMessage :: "Html5QrcodeScanner \<Rightarrow> Html5QrcodeScanner" where
  "resetHeaderMessage s =
     s\<lparr>headerMessageContainer := (headerMessageContainer s)\<lparr>display := ''none''\<rparr>\<rparr>"

definition setHeaderMessage ::
  "string \<Rightarrow> Html5QrcodeScannerStatus option \<Rightarrow> Html5QrcodeScanner \<Rightarrow> Html5QrcodeScanner"
where
  "setHeaderMessage messageText scannerStatus s =
     (let status = (case scannerStatus of None \<Rightarrow> STATUS_DEFAULT | Some st \<Rightarrow> st);
          h = (headerMessageContainer s)\<lparr>innerText := messageText, display := ''block''\<rparr>
      in s\<lparr>headerMessageContainer :=
             (case status of
                STATUS_SUCCESS \<Rightarrow>
                  h\<lparr>background := ''rgba(106, 175, 80, 0.26)'', color := ''#477735''\<rparr>
              | STATUS_WARNING \<Rightarrow>
                  h\<lparr>background := ''rgba(203, 36, 49, 0.14)'', color := ''#cb2431''\<rparr>
              | _ \<Rightarrow>
                  h\<lparr>background := ''rgba(0, 0, 0, 0)'', color := ''rgb(17, 17, 17)''\<rparr>)\<rparr>)"

definition showHideScanTypeSwapLink ::
  "bool option \<Rightarrow> Html5QrcodeScanner \<Rightarrow> Html5QrcodeScanner"
where
  "showHideScanTypeSwapLink shouldDisplay s =
     (if hasMoreThanOneScanType s then
        (let shouldDisplay' = (shouldDisplay = Some True)
         in s\<lparr>sectionSwapAllowed := shouldDisplay',
               switchScanTypeLink := (switchScanTypeLink s)
                 \<lparr>display := (if shouldDisplay' then ''inline-block'' else ''none'')\<rparr>\<rparr>)
      else s)"

text \<open>The placeholder image is created on first use and reaches the scan region when it has
  loaded; later uses insert the loaded image at once.\<close>

definition insertCameraScanImageToScanRegion :: "Html5QrcodeScanner \<Rightarrow> Html5QrcodeScanner" where
  "insertCameraScanImageToScanRegion s =
     (if cameraScanImage s then s\<lparr>qrCodeScanRegion := RegionCameraImage\<rparr>
      else await CameraScanImage_onload (s\<lparr>cameraScanImage := True\<rparr>))"

definition cameraScanImage_onload :: "Html5QrcodeScanner \<Rightarrow> Html5QrcodeScanner" where
  "cameraScanImage_onload s = s\<lparr>qrCodeScanRegion := RegionCameraImage\<rparr>"

definition insertFileScanImageToScanRegion :: "Html5QrcodeScanner \<Rightarrow> Html5QrcodeScanner" where
  "insertFileScanImageToScanRegion s =
     (if fileScanImage s then s\<lparr>qrCodeScanRegion := RegionFileImage\<rparr>
      else await FileScanImage_onload (s\<lparr>fileScanImage := True\<rparr>))"

definition fileScanImage_onload :: "Html5QrcodeScanner \<Rightarrow> Html5QrcodeScanner" where
  "fileScanImage_onload s = s\<lparr>qrCodeScanRegion := RegionFileImage\<rparr>"

definition clearScanRegion :: "Html5QrcodeScanner \<Rightarrow> Html5QrcodeScanner" where
  "clearScanRegion s = s\<lparr>qrCodeScanRegion := RegionEmpty\<rparr>"

section \<open>Success and error callbacks installed by render\<close>

definition qrCodeSuccessCallback ::
  "Html5QrcodeScannerStrings \<Rightarrow> string \<Rightarrow> string \<Rightarrow> Html5QrcodeScanner \<Rightarrow> Html5QrcodeScanner"
where
  "qrCodeSuccessCallback L decodedText result s =
     (if callerSuccessCallback s then emit (CallerSuccessCallback decodedText result) s
      else if lastMatchFound s = Some decodedText then s
      else setHeaderMessage (lastMatch L decodedText) (Some STATUS_SUCCESS)
             (s\<lparr>lastMatchFound := Some decodedText\<rparr>))"

definition qrCodeErrorCallback :: "string \<Rightarrow> Html5QrcodeScanner \<Rightarrow> Html5QrcodeScanner" where
  "qrCodeErrorCallback errorMessage s =
     (if callerErrorCallback s then emit (CallerErrorCallback errorMessage) s else s)"

section \<open>Camera controls\<close>

definition update_button ::
  "nat \<Rightarrow> (HTMLElement \<Rightarrow> HTMLElement) \<Rightarrow> Html5QrcodeScanner \<Rightarrow> Html5QrcodeScanner"
where
  "update_button i f s =
     (if i < length (requestPermissionButtons s)
      then s\<lparr>requestPermissionButtons :=
               (requestPermissionButtons s)[i := f (requestPermissionButtons s ! i)]\<rparr>
      else s)"

definition resetCameraActionStartButton ::
  "Html5QrcodeScannerStrings \<Rightarrow> bool \<Rightarrow> Html5QrcodeScanner \<Rightarrow> Html5QrcodeScanner"
where
  "resetCameraActionStartButton L shouldShow s =
     (let b0 = cameraActionStartButton s;
          b1 = (if \<not> shouldShow then b0\<lparr>display := ''none''\<rparr> else b0);
          b2 = b1\<lparr>innerText := scanButtonStartScanningText L, opacity := ''1'',
                   disabled := False\<rparr>;
          b3 = (if shouldShow then b2\<lparr>display := ''inline-block''\<rparr> else b2)
      in s\<lparr>cameraActionStartButton := b3\<rparr>)"

definition createAndShowTorchButtonIfSupported ::
  "CameraCapabilities \<Rightarrow> Html5QrcodeScanner \<Rightarrow> Html5QrcodeScanner"
where
  "createAndShowTorchButtonIfSupported cameraCapabilities s =
     (if \<not> torch_isSupported cameraCapabilities then
        (case torchButton s of None \<Rightarrow> s | Some _ \<Rightarrow> s\<lparr>torchButton := Some False\<rparr>)
      else s\<lparr>torchButton := Some True\<rparr>)"

text \<open>The callback that \<^verbatim>\<open>renderCameraZoomUiIfSupported\<close> installs on the slider: it hands the
  value it is given to \<^verbatim>\<open>zoomCapability.apply\<close> as it is.\<close>

definition onCameraZoomValueChange :: "real \<Rightarrow> Html5QrcodeScanner \<Rightarrow> Html5QrcodeScanner" where
  "onCameraZoomValueChange zoomValue s =
     (if zoomCallback (cameraZoomUi s) then emit (Call_zoomApply zoomValue) s else s)"

text \<open>
  \<^verbatim>\<open>CameraZoomUi\<close> (\<^verbatim>\<open>./ui/scanner/camera-zoom-ui\<close>) is not among the sources and the spec
  does not describe it. The source installs the callback, then calls \<^verbatim>\<open>setValues\<close> with the
  clipped default, then shows the slider. Whether \<^verbatim>\<open>setValues\<close> reports the value it sets to
  the installed callback is an input, \<open>sliderReports\<close>. A default of \<^verbatim>\<open>undefined\<close> or \<open>0\<close> is
  falsy and leaves \<open>1\<close>.
\<close>

definition renderCameraZoomUiIfSupported ::
  "CameraCapabilities \<Rightarrow> bool \<Rightarrow> Html5QrcodeScanner \<Rightarrow> Html5QrcodeScanner"
where
  "renderCameraZoomUiIfSupported cameraCapabilities sliderReports s =
     (if \<not> zoom_isSupported cameraCapabilities then s
      else
        (let s1 = s\<lparr>cameraZoomUi := (cameraZoomUi s)\<lparr>zoomCallback := True\<rparr>\<rparr>;
             defaultZoom =
               (case defaultZoomValueIfSupported (config s1) of
                  None \<Rightarrow> 1
                | Some v \<Rightarrow> if v = 0 then 1 else v);
             defaultZoom' =
               clip defaultZoom (zoom_min cameraCapabilities) (zoom_max cameraCapabilities);
             s2 = s1\<lparr>cameraZoomUi := (cameraZoomUi s1)
                    \<lparr>zoomValues := Some (zoom_min cameraCapabilities, zoom_max cameraCapabilities,
                                         defaultZoom', zoom_step cameraCapabilities)\<rparr>\<rparr>;
             s3 = (if sliderReports then onCameraZoomValueChange defaultZoom' s2 else s2)
         in s3\<lparr>cameraZoomUi := (cameraZoomUi s3)\<lparr>zoomShown := True\<rparr>\<rparr>))"

text \<open>The slider is a range input: it reports to its callback only values within the bounds
  that \<^verbatim>\<open>setValues\<close> gave it.\<close>

definition sliderCanReport :: "real \<Rightarrow> CameraZoomUi \<Rightarrow> bool" where
  "sliderCanReport zoomValue ui =
     (case zoomValues ui of
        None \<Rightarrow> False
      | Some (minValue, maxValue, _, _) \<Rightarrow> minValue \<le> zoomValue \<and> zoomValue \<le> maxValue)"

text \<open>The click listener of the start button, in two parts: the statements up to and with
  \<^verbatim>\<open>setLastUsedCameraId(cameraId)\<close>, and after them the call of \<^verbatim>\<open>html5Qrcode.start\<close>.\<close>

definition cameraActionStartButton_onclick_before_start ::
  "Html5QrcodeScannerStrings \<Rightarrow> CameraSelectionUi \<Rightarrow> Html5QrcodeScanner \<Rightarrow> Html5QrcodeScanner"
where
  "cameraActionStartButton_onclick_before_start L ui s =
     (let s1 = s\<lparr>cameraActionStartButton :=
                   (cameraActionStartButton s)\<lparr>innerText := scanButtonScanningStarting L\<rparr>\<rparr>;
          s2 = s1\<lparr>cameraSelectUi := Some (ui\<lparr>selectDisabled := True\<rparr>)\<rparr>;
          s3 = s2\<lparr>cameraActionStartButton :=
                    (cameraActionStartButton s2)\<lparr>disabled := True, opacity := ''0.5''\<rparr>\<rparr>;
          s4 = (if hasMoreThanOneScanType s3 then showHideScanTypeSwapLink (Some False) s3
                else s3);
          s5 = resetHeaderMessage s4;
          cameraId = selectedValue ui
      in setLastUsedCameraId cameraId s5)"

definition cameraActionStartButton_onclick ::
  "Html5QrcodeScannerStrings \<Rightarrow> CameraSelectionUi \<Rightarrow> Html5QrcodeScanner \<Rightarrow> Html5QrcodeScanner"
where
  "cameraActionStartButton_onclick L ui s =
     (let s6 = cameraActionStartButton_onclick_before_start L ui s;
          cameraId = selectedValue ui
      in case html5Qrcode s6 of
           None \<Rightarrow>
             emit (Uncaught (TypeError ''Cannot read properties of undefined (reading start)'')) s6
         | Some _ \<Rightarrow> await Html5Qrcode_start (emit (Call_start cameraId) s6))"

text \<open>\<^verbatim>\<open>cameraActionStartButton.click()\<close>: a disabled button dispatches no click event.\<close>

definition cameraActionStartButton_click ::
  "Html5QrcodeScannerStrings \<Rightarrow> Html5QrcodeScanner \<Rightarrow> Html5QrcodeScanner"
where
  "cameraActionStartButton_click L s =
     (case cameraSelectUi s of
        None \<Rightarrow> s
      | Some ui \<Rightarrow>
          if disabled (cameraActionStartButton s) then s
          else cameraActionStartButton_onclick L ui s)"

text \<open>The callback of a start that succeeded. \<open>started\<close> holds what the callback reads from
  outside the scanner: the capabilities of the running track, and whether the slider reports
  on \<^verbatim>\<open>setValues\<close>.\<close>

definition start_then ::
  "Html5QrcodeScannerStrings \<Rightarrow> CameraCapabilities \<times> bool \<Rightarrow> Html5QrcodeScanner \<Rightarrow>
   error option \<times> Html5QrcodeScanner"
where
  "start_then L started s =
     (let cameraCapabilities = fst started;
          s1 = s\<lparr>cameraActionStopButton :=
                   (cameraActionStopButton s)\<lparr>disabled := False, display := ''inline-block''\<rparr>\<rparr>;
          s2 = resetCameraActionStartButton L False s1;
          s3 = (if showTorchButtonIfSupported (config s2) = Some True
                then createAndShowTorchButtonIfSupported cameraCapabilities s2 else s2);
          s4 = (if showZoomSliderIfSupported (config s3) = Some True
                then renderCameraZoomUiIfSupported cameraCapabilities (snd started) s3 else s3)
      in (None, s4))"

definition start_catch ::
  "Html5QrcodeScannerStrings \<Rightarrow> error \<Rightarrow> Html5QrcodeScanner \<Rightarrow> Html5QrcodeScanner"
where
  "start_catch L err s =
     (let s1 = showHideScanTypeSwapLink (Some True) s;
          s2 = s1\<lparr>cameraSelectUi := map_option (\<lambda>ui. ui\<lparr>selectDisabled := False\<rparr>) (cameraSelectUi s1)\<rparr>;
          s3 = resetCameraActionStartButton L True s2
      in setHeaderMessage (error_text err) (Some STATUS_WARNING) s3)"

definition cameraActionStopButton_onclick :: "Html5QrcodeScanner \<Rightarrow> Html5QrcodeScanner" where
  "cameraActionStopButton_onclick s =
     (case html5Qrcode s of
        None \<Rightarrow> emit (Uncaught (Thrown ''html5Qrcode not defined'')) s
      | Some _ \<Rightarrow>
          await Html5Qrcode_stop (emit Call_stop
            (s\<lparr>cameraActionStopButton := (cameraActionStopButton s)\<lparr>disabled := True\<rparr>\<rparr>)))"

definition cameraActionStopButton_click :: "Html5QrcodeScanner \<Rightarrow> Html5QrcodeScanner" where
  "cameraActionStopButton_click s =
     (if cameraSelectUi s = None \<or> disabled (cameraActionStopButton s) then s
      else cameraActionStopButton_onclick s)"

definition stop_then :: "unit \<Rightarrow> Html5QrcodeScanner \<Rightarrow> error option \<times> Html5QrcodeScanner" where
  "stop_then u s =
     (let s1 = (if hasMoreThanOneScanType s then showHideScanTypeSwapLink (Some True) s else s);
          s2 = s1\<lparr>cameraSelectUi := map_option (\<lambda>ui. ui\<lparr>selectDisabled := False\<rparr>) (cameraSelectUi s1)\<rparr>;
          s3 = s2\<lparr>cameraActionStartButton := (cameraActionStartButton s2)\<lparr>disabled := False\<rparr>\<rparr>;
          s4 = s3\<lparr>cameraActionStopButton := (cameraActionStopButton s3)\<lparr>display := ''none''\<rparr>\<rparr>;
          s5 = s4\<lparr>cameraActionStartButton :=
                    (cameraActionStartButton s4)\<lparr>display := ''inline-block''\<rparr>\<rparr>;
          s6 = s5\<lparr>torchButton := map_option (\<lambda>_. False) (torchButton s5)\<rparr>;
          s7 = s6\<lparr>cameraZoomUi := (cameraZoomUi s6)\<lparr>zoomCallback := False, zoomShown := False\<rparr>\<rparr>
      in (None, insertCameraScanImageToScanRegion s7))"

definition stop_catch :: "error \<Rightarrow> Html5QrcodeScanner \<Rightarrow> Html5QrcodeScanner" where
  "stop_catch err s =
     setHeaderMessage (error_text err) (Some STATUS_WARNING)
       (s\<lparr>cameraActionStopButton := (cameraActionStopButton s)\<lparr>disabled := False\<rparr>\<rparr>)"

text \<open>\<^verbatim>\<open>renderCameraSelection\<close> creates the controls, registers the listeners, and clicks the
  start button when there is one camera, and again when the stored camera id is among the
  cameras. A stored id that is the empty string is falsy.\<close>

definition renderCameraSelection ::
  "Html5QrcodeScannerStrings \<Rightarrow> CameraDevice list \<Rightarrow> Html5QrcodeScanner \<Rightarrow> Html5QrcodeScanner"
where
  "renderCameraSelection L cameras s =
     (let ui = CameraSelectionUi_create cameras;
          s1 = s\<lparr>cameraZoomUi := \<lparr>zoomShown = False, zoomValues = None, zoomCallback = False\<rparr>,
                 cameraSelectUi := Some ui,
                 cameraActionStartButton :=
                   createElement\<lparr>innerText := scanButtonStartScanningText L\<rparr>,
                 cameraActionStopButton :=
                   createElement\<lparr>innerText := scanButtonStopScanningText L, display := ''none'',
                                 disabled := True\<rparr>,
                 torchButton := None\<rparr>;
          s2 = (if hasSingleItem ui then cameraActionStartButton_click L s1 else s1)
      in case getLastUsedCameraId s2 of
           None \<Rightarrow> s2
         | Some cameraId \<Rightarrow>
             if cameraId = [] then s2
             else
               (case cameraSelectUi s2 of
                  None \<Rightarrow> s2
                | Some ui2 \<Rightarrow>
                    if hasValue ui2 cameraId
                    then cameraActionStartButton_click L
                           (s2\<lparr>cameraSelectUi := Some (ui2\<lparr>selectedValue := cameraId\<rparr>)\<rparr>)
                    else resetLastUsedCameraId s2))"

section \<open>Permission request and camera enumeration\<close>

definition createPermissionButton ::
  "Html5QrcodeScannerStrings \<Rightarrow> Html5QrcodeScanner \<Rightarrow> Html5QrcodeScanner"
where
  "createPermissionButton L s =
     s\<lparr>requestPermissionButtons :=
         requestPermissionButtons s @ [createElement\<lparr>innerText := cameraPermissionTitle L\<rparr>]\<rparr>"

definition createPermissionButtonIfNotExists ::
  "Html5QrcodeScannerStrings \<Rightarrow> nat option \<Rightarrow> Html5QrcodeScanner \<Rightarrow> Html5QrcodeScanner"
where
  "createPermissionButtonIfNotExists L requestPermissionButton s =
     (case requestPermissionButton of None \<Rightarrow> createPermissionButton L s | Some _ \<Rightarrow> s)"

definition createCameraListUi ::
  "Html5QrcodeScannerStrings \<Rightarrow> nat option \<Rightarrow> Html5QrcodeScanner \<Rightarrow> Html5QrcodeScanner"
where
  "createCameraListUi L requestPermissionButton s =
     (let s1 = showHideScanTypeSwapLink (Some False) s;
          s2 = setHeaderMessage (cameraPermissionRequesting L) None s1
      in await (GetCameras requestPermissionButton) (emit Call_getCameras s2))"

definition getCameras_then ::
  "Html5QrcodeScannerStrings \<Rightarrow> nat option \<Rightarrow> CameraDevice list \<Rightarrow> Html5QrcodeScanner \<Rightarrow>
   error option \<times> Html5QrcodeScanner"
where
  "getCameras_then L requestPermissionButton cameras s =
     (let s1 = setHasPermission True s;
          s2 = showHideScanTypeSwapLink (Some True) s1;
          s3 = resetHeaderMessage s2
      in if 0 < length cameras then
           (if requestPermissionContainerAttached s3
            then (None, renderCameraSelection L cameras
                          (s3\<lparr>requestPermissionContainerAttached := False\<rparr>))
            else (Some NotFoundError, s3))
         else
           (None, createPermissionButtonIfNotExists L requestPermissionButton
                    (setHeaderMessage (noCameraFound L) (Some STATUS_WARNING) s3)))"

definition getCameras_catch ::
  "Html5QrcodeScannerStrings \<Rightarrow> nat option \<Rightarrow> error \<Rightarrow> Html5QrcodeScanner \<Rightarrow> Html5QrcodeScanner"
where
  "getCameras_catch L requestPermissionButton err s =
     (let s1 = setHasPermission False s;
          s2 = (case requestPermissionButton of
                  Some i \<Rightarrow> update_button i (\<lambda>b. b\<lparr>disabled := False\<rparr>) s1
                | None \<Rightarrow> createPermissionButtonIfNotExists L requestPermissionButton s1);
          s3 = setHeaderMessage (error_text err) (Some STATUS_WARNING) s2
      in showHideScanTypeSwapLink (Some True) s3)"

text \<open>The click listener that \<^verbatim>\<open>createPermissionButton\<close> registers on the button it creates,
  and a click on the button at position \<open>i\<close>.\<close>

definition requestPermissionButton_onclick ::
  "Html5QrcodeScannerStrings \<Rightarrow> nat \<Rightarrow> Html5QrcodeScanner \<Rightarrow> Html5QrcodeScanner"
where
  "requestPermissionButton_onclick L i s =
     createCameraListUi L (Some i) (update_button i (\<lambda>b. b\<lparr>disabled := True\<rparr>) s)"

definition requestPermissionButton_click ::
  "Html5QrcodeScannerStrings \<Rightarrow> nat \<Rightarrow> Html5QrcodeScanner \<Rightarrow> Html5QrcodeScanner"
where
  "requestPermissionButton_click L i s =
     (if i < length (requestPermissionButtons s) \<and> \<not> disabled (requestPermissionButtons s ! i)
      then requestPermissionButton_onclick L i s else s)"

definition createPermissionsUi ::
  "Html5QrcodeScannerStrings \<Rightarrow> Html5QrcodeScanner \<Rightarrow> Html5QrcodeScanner"
where
  "createPermissionsUi L s =
     (if isCameraScanType (currentScanType s) \<and> hasCameraPermissions s
      then await HasPermissions_createPermissionsUi (emit Call_hasPermissions s)
      else createPermissionButton L s)"

definition createPermissionsUi_then ::
  "Html5QrcodeScannerStrings \<Rightarrow> bool \<Rightarrow> Html5QrcodeScanner \<Rightarrow>
   error option \<times> Html5QrcodeScanner"
where
  "createPermissionsUi_then L hasPermissions s =
     (if hasPermissions then (None, createCameraListUi L None s)
      else (None, createPermissionButton L (setHasPermission False s)))"

definition createPermissionsUi_catch ::
  "Html5QrcodeScannerStrings \<Rightarrow> error \<Rightarrow> Html5QrcodeScanner \<Rightarrow> Html5QrcodeScanner"
where
  "createPermissionsUi_catch L err s = createPermissionButton L (setHasPermission False s)"

section \<open>Switching between camera and file scan\<close>

text \<open>\<^verbatim>\<open>startCameraScanIfPermissionExistsOnSwap\<close> starts the live permission check and returns;
  its callbacks run when the check settles. No statement of the source assigns
  \<open>permissionButton\<close>, so the listener behind a button held there is not given by the source:
  a click on it is recorded in the trace.\<close>

definition startCameraScanIfPermissionExistsOnSwap ::
  "Html5QrcodeScanner \<Rightarrow> Html5QrcodeScanner"
where
  "startCameraScanIfPermissionExistsOnSwap s =
     (if hasCameraPermissions s then await HasPermissions_onSwap (emit Call_hasPermissions s)
      else s)"

definition onSwap_then :: "bool \<Rightarrow> Html5QrcodeScanner \<Rightarrow> error option \<times> Html5QrcodeScanner" where
  "onSwap_then hasPermissions s =
     (if hasPermissions then
        (case permissionButton s of
           None \<Rightarrow>
             (Some (Thrown ''Permission button not found''),
              emit (LogError ''Permission button not found, fail;'') s)
         | Some _ \<Rightarrow> (None, emit PermissionButton_click s))
      else (None, setHasPermission False s))"

definition onSwap_catch :: "error \<Rightarrow> Html5QrcodeScanner \<Rightarrow> Html5QrcodeScanner" where
  "onSwap_catch err s = setHasPermission False s"

text \<open>The click listener of the swap link, in the three parts of its body: the cleanup that
  ends with the guard set to false, the swap to the other scan type, and the guard set to
  true.\<close>

definition createSectionSwap_cleanup :: "Html5QrcodeScanner \<Rightarrow> Html5QrcodeScanner" where
  "createSectionSwap_cleanup s =
     (let s1 = resetHeaderMessage s;
          s2 = s1\<lparr>fileSelectionUi := (fileSelectionUi s1)\<lparr>fileValue := None\<rparr>\<rparr>
      in s2\<lparr>sectionSwapAllowed := False\<rparr>)"

definition createSectionSwap_swap ::
  "Html5QrcodeScannerStrings \<Rightarrow> Html5QrcodeScanner \<Rightarrow> Html5QrcodeScanner"
where
  "createSectionSwap_swap L s =
     (if isCameraScanType (currentScanType s) then
        (let s1 = clearScanRegion s;
             s2 = s1\<lparr>scpCameraScanRegion := (scpCameraScanRegion s1)\<lparr>display := ''none''\<rparr>\<rparr>;
             s3 = s2\<lparr>fileSelectionUi := (fileSelectionUi s2)\<lparr>fileShown := True\<rparr>\<rparr>;
             s4 = s3\<lparr>switchScanTypeLink :=
                       (switchScanTypeLink s3)\<lparr>innerText := textIfFileScanSelected L\<rparr>\<rparr>;
             s5 = s4\<lparr>currentScanType := SCAN_TYPE_FILE\<rparr>
         in insertFileScanImageToScanRegion s5)
      else
        (let s1 = clearScanRegion s;
             s2 = s1\<lparr>scpCameraScanRegion := (scpCameraScanRegion s1)\<lparr>display := ''block''\<rparr>\<rparr>;
             s3 = s2\<lparr>fileSelectionUi := (fileSelectionUi s2)\<lparr>fileShown := False\<rparr>\<rparr>;
             s4 = s3\<lparr>switchScanTypeLink :=
                       (switchScanTypeLink s3)\<lparr>innerText := textIfCameraScanSelected L\<rparr>\<rparr>;
             s5 = s4\<lparr>currentScanType := SCAN_TYPE_CAMERA\<rparr>;
             s6 = insertCameraScanImageToScanRegion s5
         in startCameraScanIfPermissionExistsOnSwap s6))"

definition switchScanTypeLink_onclick ::
  "Html5QrcodeScannerStrings \<Rightarrow> Html5QrcodeScanner \<Rightarrow> Html5QrcodeScanner"
where
  "switchScanTypeLink_onclick L s =
     (if \<not> sectionSwapAllowed s then
        (if verbose s then emit (LogError ''Section swap called when not allowed'') s else s)
      else
        (createSectionSwap_swap L (createSectionSwap_cleanup s))\<lparr>sectionSwapAllowed := True\<rparr>)"

section \<open>File scan\<close>

definition onFileSelected ::
  "Html5QrcodeScannerStrings \<Rightarrow> string \<Rightarrow> Html5QrcodeScanner \<Rightarrow> Html5QrcodeScanner"
where
  "onFileSelected L file s =
     (case html5Qrcode s of
        None \<Rightarrow> emit (Uncaught (Thrown ''html5Qrcode not defined'')) s
      | Some _ \<Rightarrow>
          if \<not> isFileScanType (currentScanType s) then s
          else await Html5Qrcode_scanFileV2 (emit (Call_scanFileV2 file)
                 (setHeaderMessage (loadingImage L) None s)))"

definition scanFile_then ::
  "Html5QrcodeScannerStrings \<Rightarrow> string \<times> string \<Rightarrow> Html5QrcodeScanner \<Rightarrow>
   error option \<times> Html5QrcodeScanner"
where
  "scanFile_then L html5qrcodeResult s =
     (None, qrCodeSuccessCallback L (fst html5qrcodeResult) (snd html5qrcodeResult)
              (resetHeaderMessage s))"

definition scanFile_catch :: "error \<Rightarrow> Html5QrcodeScanner \<Rightarrow> Html5QrcodeScanner" where
  "scanFile_catch err s =
     qrCodeErrorCallback (error_text err)
       (setHeaderMessage (error_text err) (Some STATUS_WARNING) s)"

section \<open>Layout and render\<close>

definition createHeader :: "Html5QrcodeScanner \<Rightarrow> Html5QrcodeScanner" where
  "createHeader s = s\<lparr>headerMessageContainer := createElement\<lparr>display := ''none''\<rparr>\<rparr>"

definition renderFileScanUi :: "Html5QrcodeScanner \<Rightarrow> Html5QrcodeScanner" where
  "renderFileScanUi s =
     s\<lparr>fileSelectionUi :=
         \<lparr>fileShown = isFileScanType (currentScanType s), fileValue = None\<rparr>\<rparr>"

definition createSectionControlPanel ::
  "Html5QrcodeScannerStrings \<Rightarrow> Html5QrcodeScanner \<Rightarrow> Html5QrcodeScanner"
where
  "createSectionControlPanel L s =
     (let s1 = s\<lparr>scpCameraScanRegion :=
                   createElement\<lparr>display := (if isCameraScanType (currentScanType s)
                                               then ''block'' else ''none'')\<rparr>\<rparr>;
          s2 = s1\<lparr>requestPermissionContainerAttached := True, requestPermissionButtons := []\<rparr>;
          s3 = (if isCameraScanRequired s2 then createPermissionsUi L s2 else s2)
      in renderFileScanUi s3)"

definition createSectionSwap ::
  "Html5QrcodeScannerStrings \<Rightarrow> Html5QrcodeScanner \<Rightarrow> Html5QrcodeScanner"
where
  "createSectionSwap L s =
     s\<lparr>switchScanTypeLink :=
         createElement\<lparr>innerText := (if isCameraScanType (currentScanType s)
                                       then textIfCameraScanSelected L
                                       else textIfFileScanSelected L)\<rparr>\<rparr>"

definition setupInitialDashboard ::
  "Html5QrcodeScannerStrings \<Rightarrow> Html5QrcodeScanner \<Rightarrow> Html5QrcodeScanner"
where
  "setupInitialDashboard L s =
     (let s1 = createSectionControlPanel L s
      in if hasMoreThanOneScanType s1 then createSectionSwap L s1 else s1)"

definition createBasicLayout ::
  "Html5QrcodeScannerStrings \<Rightarrow> Html5QrcodeScanner \<Rightarrow> Html5QrcodeScanner"
where
  "createBasicLayout L s =
     (let s1 = s\<lparr>container := \<lparr>hasChildren = True, border = ''1px solid silver''\<rparr>\<rparr>;
          s2 = createHeader s1;
          s3 = s2\<lparr>qrCodeScanRegion := RegionEmpty\<rparr>;
          s4 = (if isCameraScanType (currentScanType s3)
                then insertCameraScanImageToScanRegion s3
                else insertFileScanImageToScanRegion s3)
      in setupInitialDashboard L s4)"

text \<open>
  \<^verbatim>\<open>render\<close>. The container was validated by the constructor, so the \<^verbatim>\<open>throw\<close> for a missing
  container is never reached. Emptying the container removes the camera controls of an
  earlier layout. The record keeps one generation of elements: callbacks of promises that
  were pending before a second \<^verbatim>\<open>render\<close> are outside what it describes.
\<close>

definition render ::
  "Html5QrcodeScannerStrings \<Rightarrow> bool \<Rightarrow> bool \<Rightarrow> Html5QrcodeScanner \<Rightarrow> Html5QrcodeScanner"
where
  "render L qrCodeSuccessCallbackGiven qrCodeErrorCallbackGiven s =
     (let s1 = s\<lparr>lastMatchFound := None\<rparr>;
          s2 = s1\<lparr>callerSuccessCallback := qrCodeSuccessCallbackGiven,
                  callerErrorCallback := qrCodeErrorCallbackGiven\<rparr>;
          s3 = s2\<lparr>container := (container s2)\<lparr>hasChildren := False\<rparr>,
                  cameraSelectUi := None, torchButton := None,
                  cameraZoomUi := \<lparr>zoomShown = False, zoomValues = None, zoomCallback = False\<rparr>\<rparr>;
          s4 = createBasicLayout L s3
      in s4\<lparr>html5Qrcode := Some \<lparr>isScanning = False\<rparr>\<rparr>)"

section \<open>clear\<close>

definition emptyHtmlContainer :: "Html5QrcodeScanner \<Rightarrow> Html5QrcodeScanner" where
  "emptyHtmlContainer s = s\<lparr>container := \<lparr>hasChildren = False, border = ''none''\<rparr>\<rparr>"

text \<open>
  \<^verbatim>\<open>clear()\<close> returns a promise; \<open>clear\<close> gives how that promise settles and the scanner
  after it. \<open>stopped\<close> is how the promise of \<^verbatim>\<open>html5Qrcode.stop()\<close> settles, read only when
  \<^verbatim>\<open>stop()\<close> is called. Modelled from the spec: \<^verbatim>\<open>Html5Qrcode\<close> (\<^verbatim>\<open>./html5-qrcode\<close>) is not
  among the sources; a stop that succeeds ends the session, a stop that fails leaves it
  active.
\<close>

definition clear_stop_then :: "Html5QrcodeScanner \<Rightarrow> unit settled \<times> Html5QrcodeScanner" where
  "clear_stop_then s =
     (case html5Qrcode s of
        None \<Rightarrow> (Resolved (), s)
      | Some _ \<Rightarrow> (Resolved (), emptyHtmlContainer (emit Call_clear s)))"

definition clear_stop_catch ::
  "error \<Rightarrow> Html5QrcodeScanner \<Rightarrow> unit settled \<times> Html5QrcodeScanner"
where
  "clear_stop_catch err s =
     (Rejected err,
      if verbose s then emit (LogError ''Unable to stop qrcode scanner'') s else s)"

definition clear :: "unit settled \<Rightarrow> Html5QrcodeScanner \<Rightarrow> unit settled \<times> Html5QrcodeScanner" where
  "clear stopped s =
     (case html5Qrcode s of
        None \<Rightarrow> (Resolved (), s)
      | Some q \<Rightarrow>
          if isScanning q then
            (case stopped of
               Resolved _ \<Rightarrow>
                 clear_stop_then
                   ((emit Call_stop s)\<lparr>html5Qrcode := Some (q\<lparr>isScanning := False\<rparr>)\<rparr>)
             | Rejected err \<Rightarrow> clear_stop_catch err (emit Call_stop s))
          else (Resolved (), emptyHtmlContainer (emit Call_clear s)))"

section \<open>The scanner as a state machine\<close>

text \<open>
  After \<^verbatim>\<open>render\<close> the scanner moves by events: the user's clicks and selections, a decode
  result delivered by the engine, and a pending promise that settles. \<open>Settle i v\<close> settles
  the promise at position \<open>i\<close> of the pending list with the value \<open>v\<close>; an event that does not
  fit the state (no such element, no such promise, a value of another promise, a slider
  value outside the slider's bounds) changes nothing. Modelled from the spec: the engine is scanning after a start that succeeds and
  not scanning after a stop that succeeds.
\<close>

datatype settlement =
    Permission "bool settled"
  | Cameras "CameraDevice list settled"
  | Started "(CameraCapabilities \<times> bool) settled"
  | Stopped "unit settled"
  | Scanned "(string \<times> string) settled"
  | Loaded

datatype event =
    Click_switchScanTypeLink
  | Click_requestPermissionButton nat
  | Click_cameraActionStartButton
  | Click_cameraActionStopButton
  | Select_camera string
  | Select_file string
  | Slide_zoom real
  | Decoded string string
  | Settle nat settlement

definition set_isScanning :: "bool \<Rightarrow> Html5QrcodeScanner \<Rightarrow> Html5QrcodeScanner" where
  "set_isScanning b s = s\<lparr>html5Qrcode := map_option (\<lambda>q. q\<lparr>isScanning := b\<rparr>) (html5Qrcode s)\<rparr>"

fun settle_promise ::
  "Html5QrcodeScannerStrings \<Rightarrow> promise \<Rightarrow> settlement \<Rightarrow> Html5QrcodeScanner \<Rightarrow>
   Html5QrcodeScanner option"
where
  "settle_promise L HasPermissions_createPermissionsUi (Permission r) s =
     Some (then_catch (createPermissionsUi_then L) (createPermissionsUi_catch L) r s)"
| "settle_promise L HasPermissions_onSwap (Permission r) s =
     Some (then_catch onSwap_then onSwap_catch r s)"
| "settle_promise L (GetCameras b) (Cameras r) s =
     Some (then_catch (getCameras_then L b) (getCameras_catch L b) r s)"
| "settle_promise L Html5Qrcode_start (Started r) s =
     Some (then_catch (start_then L) (start_catch L) r
             (case r of Resolved _ \<Rightarrow> set_isScanning True s | Rejected _ \<Rightarrow> s))"
| "settle_promise L Html5Qrcode_stop (Stopped r) s =
     Some (then_catch stop_then stop_catch r
             (case r of Resolved _ \<Rightarrow> set_isScanning False s | Rejected _ \<Rightarrow> s))"
| "settle_promise L Html5Qrcode_scanFileV2 (Scanned r) s =
     Some (then_catch (scanFile_then L) scanFile_catch r s)"
| "settle_promise L CameraScanImage_onload Loaded s = Some (cameraScanImage_onload s)"
| "settle_promise L FileScanImage_onload Loaded s = Some (fileScanImage_onload s)"
| "settle_promise L _ _ s = None"

definition settle ::
  "Html5QrcodeScannerStrings \<Rightarrow> nat \<Rightarrow> settlement \<Rightarrow> Html5QrcodeScanner \<Rightarrow> Html5QrcodeScanner"
where
  "settle L i v s =
     (if i < length (pending s) then
        (case settle_promise L (pending s ! i) v
                (s\<lparr>pending := take i (pending s) @ drop (Suc i) (pending s)\<rparr>) of
           None \<Rightarrow> s
         | Some s' \<Rightarrow> s')
      else s)"

fun step :: "Html5QrcodeScannerStrings \<Rightarrow> event \<Rightarrow> Html5QrcodeScanner \<Rightarrow> Html5QrcodeScanner" where
  "step L Click_switchScanTypeLink s =
     (if hasMoreThanOneScanType s then switchScanTypeLink_onclick L s else s)"
| "step L (Click_requestPermissionButton i) s = requestPermissionButton_click L i s"
| "step L Click_cameraActionStartButton s = cameraActionStartButton_click L s"
| "step L Click_cameraActionStopButton s = cameraActionStopButton_click s"
| "step L (Select_camera cameraId) s =
     (case cameraSelectUi s of
        None \<Rightarrow> s
      | Some ui \<Rightarrow>
          if \<not> selectDisabled ui \<and> hasValue ui cameraId
          then s\<lparr>cameraSelectUi := Some (ui\<lparr>selectedValue := cameraId\<rparr>)\<rparr> else s)"
| "step L (Select_file file) s =
     onFileSelected L file (s\<lparr>fileSelectionUi := (fileSelectionUi s)\<lparr>fileValue := Some file\<rparr>\<rparr>)"
| "step L (Slide_zoom zoomValue) s =
     (if sliderCanReport zoomValue (cameraZoomUi s) then onCameraZoomValueChange zoomValue s
      else s)"
| "step L (Decoded decodedText result) s =
     (case html5Qrcode s of
        None \<Rightarrow> s
      | Some q \<Rightarrow> if isScanning q then qrCodeSuccessCallback L decodedText result s else s)"
| "step L (Settle i v) s = settle L i v s"

definition run ::
  "Html5QrcodeScannerStrings \<Rightarrow> event list \<Rightarrow> Html5QrcodeScanner \<Rightarrow> Html5QrcodeScanner"
where
  "run L events s = foldl (\<lambda>s' e. step L e s') s events"

section \<open>Sample inputs\<close>

text \<open>Values for the two imported tables and three scanners that the document and the
  stored preferences can give, used to evaluate the definitions at concrete inputs.\<close>

definition sample_constants :: Html5QrcodeConstants where
  "sample_constants =
     \<lparr>SCAN_DEFAULT_FPS = 2, DEFAULT_REMEMBER_LAST_CAMERA_USED = True,
      DEFAULT_SUPPORTED_SCAN_TYPE = [SCAN_TYPE_CAMERA, SCAN_TYPE_FILE]\<rparr>"

definition sample_strings :: Html5QrcodeScannerStrings where
  "sample_strings =
     \<lparr>lastMatch = (\<lambda>decodedText. ''Last Match: '' @ decodedText),
      cameraPermissionRequesting = ''Requesting camera permissions...'',
      noCameraFound = ''No camera found'',
      cameraPermissionTitle = ''Request Camera Permissions'',
      loadingImage = ''Loading image...'',
      scanButtonStartScanningText = ''Start Scanning'',
      scanButtonStopScanningText = ''Stop Scanning'',
      scanButtonScanningStarting = ''Launching Camera...'',
      textIfCameraScanSelected = ''Scan an Image File'',
      textIfFileScanSelected = ''Scan using camera directly''\<rparr>"

definition sample_document :: "(string \<times> Container) list" where
  "sample_document = [(''reader'', \<lparr>hasChildren = False, border = []\<rparr>)]"

definition sample_config :: "Html5QrcodeScanType list \<Rightarrow> Html5QrcodeScannerConfig" where
  "sample_config types =
     \<lparr>fps = Some 10, rememberLastUsedCamera = None, supportedScanTypes = Some types,
      showTorchButtonIfSupported = None, showZoomSliderIfSupported = Some True,
      defaultZoomValueIfSupported = None\<rparr>"

definition sample_scanner ::
  "Html5QrcodeScanType list \<Rightarrow> bool \<Rightarrow> bool \<Rightarrow> Html5QrcodeScanner"
where
  "sample_scanner types permitted callbackGiven =
     render sample_strings callbackGiven callbackGiven
       (projr (Html5QrcodeScanner_new sample_constants sample_document
                 \<lparr>hasPermission = permitted, lastUsedCameraId = None\<rparr>
                 (ElementId ''reader'') (Some (sample_config types)) (Some True)))"

definition sample_cameras :: "CameraDevice list" where
  "sample_cameras =
     [\<lparr>camera_id = ''cam-1'', camera_label = ''Front''\<rparr>,
      \<lparr>camera_id = ''cam-2'', camera_label = ''Back''\<rparr>]"

definition sample_capabilities :: CameraCapabilities where
  "sample_capabilities =
     \<lparr>zoom_isSupported = True, zoom_min = 1, zoom_max = 5, zoom_step = 1,
      torch_isSupported = False\<rparr>"



section \<open>No statement assigns permissionButton\<close>

text \<open>The constructor sets \<open>permissionButton\<close> to null, and no method, listener or callback
  writes it: it is null in every state that construction, \<^verbatim>\<open>render\<close> and events reach.\<close>

lemmas basic_defs = emit_def await_def setHasPermission_def setLastUsedCameraId_def
  resetLastUsedCameraId_def resetHeaderMessage_def setHeaderMessage_def
  showHideScanTypeSwapLink_def clearScanRegion_def insertCameraScanImageToScanRegion_def
  insertFileScanImageToScanRegion_def cameraScanImage_onload_def fileScanImage_onload_def
  update_button_def createPermissionButton_def createPermissionButtonIfNotExists_def
  resetCameraActionStartButton_def createAndShowTorchButtonIfSupported_def
  renderCameraZoomUiIfSupported_def onCameraZoomValueChange_def set_isScanning_def
  qrCodeSuccessCallback_def qrCodeErrorCallback_def

lemma permissionButton_basic [simp]:
  "permissionButton (emit e s) = permissionButton s"
  "permissionButton (await p s) = permissionButton s"
  "permissionButton (setHasPermission b s) = permissionButton s"
  "permissionButton (setLastUsedCameraId cid s) = permissionButton s"
  "permissionButton (resetLastUsedCameraId s) = permissionButton s"
  "permissionButton (resetHeaderMessage s) = permissionButton s"
  "permissionButton (setHeaderMessage m st s) = permissionButton s"
  "permissionButton (showHideScanTypeSwapLink d s) = permissionButton s"
  "permissionButton (clearScanRegion s) = permissionButton s"
  "permissionButton (insertCameraScanImageToScanRegion s) = permissionButton s"
  "permissionButton (insertFileScanImageToScanRegion s) = permissionButton s"
  "permissionButton (cameraScanImage_onload s) = permissionButton s"
  "permissionButton (fileScanImage_onload s) = permissionButton s"
  "permissionButton (update_button i upd s) = permissionButton s"
  "permissionButton (createPermissionButton L s) = permissionButton s"
  "permissionButton (createPermissionButtonIfNotExists L rb s) = permissionButton s"
  "permissionButton (resetCameraActionStartButton L sh s) = permissionButton s"
  "permissionButton (createAndShowTorchButtonIfSupported c s) = permissionButton s"
  "permissionButton (renderCameraZoomUiIfSupported c rp s) = permissionButton s"
  "permissionButton (onCameraZoomValueChange z s) = permissionButton s"
  "permissionButton (set_isScanning sc s) = permissionButton s"
  "permissionButton (qrCodeSuccessCallback L t r s) = permissionButton s"
  "permissionButton (qrCodeErrorCallback m s) = permissionButton s"
  by (simp_all add: basic_defs Let_def split: option.splits Html5QrcodeScannerStatus.splits)

lemma permissionButton_start [simp]:
  "permissionButton (cameraActionStartButton_onclick_before_start L ui s) = permissionButton s"
  "permissionButton (cameraActionStartButton_onclick L ui s) = permissionButton s"
  "permissionButton (cameraActionStartButton_click L s) = permissionButton s"
  "permissionButton (snd (start_then L st s)) = permissionButton s"
  "permissionButton (start_catch L e s) = permissionButton s"
  "permissionButton (cameraActionStopButton_onclick s) = permissionButton s"
  "permissionButton (cameraActionStopButton_click s) = permissionButton s"
  "permissionButton (snd (stop_then u s)) = permissionButton s"
  "permissionButton (stop_catch e s) = permissionButton s"
  by (simp_all add: cameraActionStartButton_onclick_before_start_def
      cameraActionStartButton_onclick_def cameraActionStartButton_click_def
      start_then_def start_catch_def cameraActionStopButton_onclick_def
      cameraActionStopButton_click_def stop_then_def stop_catch_def Let_def
      split: option.splits)

lemma permissionButton_cameras [simp]:
  "permissionButton (renderCameraSelection L cs s) = permissionButton s"
  "permissionButton (createCameraListUi L b s) = permissionButton s"
  "permissionButton (snd (getCameras_then L b cs s)) = permissionButton s"
  "permissionButton (getCameras_catch L b e s) = permissionButton s"
  "permissionButton (requestPermissionButton_onclick L i s) = permissionButton s"
  "permissionButton (requestPermissionButton_click L i s) = permissionButton s"
  "permissionButton (createPermissionsUi L s) = permissionButton s"
  "permissionButton (snd (createPermissionsUi_then L h s)) = permissionButton s"
  "permissionButton (createPermissionsUi_catch L e s) = permissionButton s"
  by (simp_all add: renderCameraSelection_def createCameraListUi_def getCameras_then_def
      getCameras_catch_def requestPermissionButton_onclick_def requestPermissionButton_click_def
      createPermissionsUi_def createPermissionsUi_then_def createPermissionsUi_catch_def Let_def
      split: option.splits)

lemma permissionButton_swap [simp]:
  "permissionButton (startCameraScanIfPermissionExistsOnSwap s) = permissionButton s"
  "permissionButton (snd (onSwap_then h s)) = permissionButton s"
  "permissionButton (onSwap_catch e s) = permissionButton s"
  "permissionButton (createSectionSwap_cleanup s) = permissionButton s"
  "permissionButton (createSectionSwap_swap L s) = permissionButton s"
  "permissionButton (switchScanTypeLink_onclick L s) = permissionButton s"
  "permissionButton (onFileSelected L f s) = permissionButton s"
  "permissionButton (snd (scanFile_then L x s)) = permissionButton s"
  "permissionButton (scanFile_catch e s) = permissionButton s"
  by (simp_all add: startCameraScanIfPermissionExistsOnSwap_def onSwap_then_def onSwap_catch_def
      createSectionSwap_cleanup_def createSectionSwap_swap_def switchScanTypeLink_onclick_def
      onFileSelected_def scanFile_then_def scanFile_catch_def Let_def split: option.splits)

lemma permissionButton_then_catch:
  assumes "\<And>v s. permissionButton (snd (f v s)) = permissionButton s"
    and "\<And>e s. permissionButton (g e s) = permissionButton s"
  shows "permissionButton (then_catch f g r s) = permissionButton s"
proof (cases r)
  case (Resolved v)
  obtain eo s' where fv: "f v s = (eo, s')" by (cases "f v s")
  have "permissionButton s' = permissionButton s" using assms(1)[of v s] fv by simp
  then show ?thesis using Resolved fv assms(2) by (cases eo) (simp_all add: then_catch_def)
next
  case (Rejected e)
  then show ?thesis using assms(2) by (simp add: then_catch_def)
qed

lemma permissionButton_settle_promise:
  "settle_promise L p v s = Some s' \<Longrightarrow> permissionButton s' = permissionButton s"
  by (cases "(L, p, v, s)" rule: settle_promise.cases)
     (auto simp: permissionButton_then_catch split: settled.splits)

lemma permissionButton_settle [simp]: "permissionButton (settle L i v s) = permissionButton s"
  by (auto simp: settle_def dest: permissionButton_settle_promise split: option.splits)

lemma permissionButton_step [simp]: "permissionButton (step L e s) = permissionButton s"
  by (cases e) (simp_all split: option.splits)

lemma permissionButton_run [simp]: "permissionButton (run L es s) = permissionButton s"
  unfolding run_def by (induction es arbitrary: s) simp_all

lemma permissionButton_render [simp]: "permissionButton (render L a b s) = permissionButton s"
  by (simp add: render_def createBasicLayout_def createHeader_def setupInitialDashboard_def
      createSectionControlPanel_def createSectionSwap_def renderFileScanUi_def Let_def)

lemma permissionButton_new:
  "Html5QrcodeScanner_new K document stored elementOrId cfg verbose' = Inr s \<Longrightarrow>
   permissionButton s = None"
  by (auto simp: Html5QrcodeScanner_new_def Let_def split: sum.splits list.splits option.splits)

lemma permissionButton_reachable:
  assumes "Html5QrcodeScanner_new K document stored elementOrId cfg verbose' = Inr s"
  shows "permissionButton (run L events (render L a b s)) = None"
  using permissionButton_new [OF assms] by simp

section \<open>A switch request while the guard is false\<close>

text \<open>
  Claim C2. When the click listener of the swap link runs while \<open>sectionSwapAllowed\<close> is
  false, it changes nothing but the log: the trace grows by the diagnostic when the scanner is
  verbose and by nothing otherwise, and the current scan type, the camera region, the file
  selection (shown or hidden, and its pending value), the header message, the guard and the
  pending promises are what they were.
\<close>

theorem swap_rejected_is_noop:
  assumes "\<not> sectionSwapAllowed s"
  shows "switchScanTypeLink_onclick L s =
           s\<lparr>trace := trace s @
               (if verbose s then [LogError ''Section swap called when not allowed''] else [])\<rparr>
         \<and> currentScanType (switchScanTypeLink_onclick L s) = currentScanType s
         \<and> scpCameraScanRegion (switchScanTypeLink_onclick L s) = scpCameraScanRegion s
         \<and> fileSelectionUi (switchScanTypeLink_onclick L s) = fileSelectionUi s
         \<and> headerMessageContainer (switchScanTypeLink_onclick L s) = headerMessageContainer s
         \<and> sectionSwapAllowed (switchScanTypeLink_onclick L s) = sectionSwapAllowed s
         \<and> pending (switchScanTypeLink_onclick L s) = pending s"
  using assms by (simp add: switchScanTypeLink_onclick_def emit_def)

text \<open>The guard is false while the cameras are being enumerated: after a click on the
  permission button, a click on the swap link only logs.\<close>

theorem swap_rejected_is_noop_witness:
  "\<not> sectionSwapAllowed
       (run sample_strings [Click_requestPermissionButton 0]
          (sample_scanner [SCAN_TYPE_CAMERA, SCAN_TYPE_FILE] False True))
   \<and> currentScanType
         (switchScanTypeLink_onclick sample_strings
            (run sample_strings [Click_requestPermissionButton 0]
               (sample_scanner [SCAN_TYPE_CAMERA, SCAN_TYPE_FILE] False True))) = SCAN_TYPE_CAMERA
   \<and> trace
         (switchScanTypeLink_onclick sample_strings
            (run sample_strings [Click_requestPermissionButton 0]
               (sample_scanner [SCAN_TYPE_CAMERA, SCAN_TYPE_FILE] False True))) =
       [Call_getCameras, LogError ''Section swap called when not allowed'']"
proof -
  let ?s = "run sample_strings [Click_requestPermissionButton 0]
              (sample_scanner [SCAN_TYPE_CAMERA, SCAN_TYPE_FILE] False True)"
  have g: "\<not> sectionSwapAllowed ?s" by code_simp
  have c: "currentScanType ?s = SCAN_TYPE_CAMERA" by code_simp
  have v: "verbose ?s" by code_simp
  have t: "trace ?s = [Call_getCameras]" by code_simp
  from swap_rejected_is_noop [OF g, of sample_strings] g c v t show ?thesis by simp
qed

section \<open>clear\<close>

text \<open>
  Claim C5. \<^verbatim>\<open>clear()\<close> resolves at once and changes nothing when there is no
  \<open>html5Qrcode\<close>. While the engine is scanning it calls \<^verbatim>\<open>stop()\<close> first: when the stop
  succeeds, the engine is cleared and the container emptied after it, and the promise
  resolves; when the stop fails, the promise rejects with that error, and the scanner is
  unchanged but for the trace (the stop call, and the log when verbose), so \<open>html5Qrcode\<close> and
  the container are intact. When the engine is not scanning it is cleared and the container
  emptied at once.
\<close>

theorem clear_stops_before_emptying:
  "(html5Qrcode s = None \<longrightarrow> clear stopped s = (Resolved (), s))
   \<and> (html5Qrcode s = Some q \<and> isScanning q \<longrightarrow>
        clear (Resolved ()) s =
          (Resolved (),
           s\<lparr>trace := trace s @ [Call_stop, Call_clear],
             html5Qrcode := Some (q\<lparr>isScanning := False\<rparr>),
             container := \<lparr>hasChildren = False, border = ''none''\<rparr>\<rparr>)
        \<and> clear (Rejected err) s =
          (Rejected err,
           s\<lparr>trace := trace s @ Call_stop #
                 (if verbose s then [LogError ''Unable to stop qrcode scanner''] else [])\<rparr>)
        \<and> html5Qrcode (snd (clear (Rejected err) s)) = html5Qrcode s
        \<and> container (snd (clear (Rejected err) s)) = container s)
   \<and> (html5Qrcode s = Some q \<and> \<not> isScanning q \<longrightarrow>
        clear stopped s =
          (Resolved (),
           s\<lparr>trace := trace s @ [Call_clear],
             container := \<lparr>hasChildren = False, border = ''none''\<rparr>\<rparr>))"
  by (simp add: clear_def clear_stop_then_def clear_stop_catch_def emptyHtmlContainer_def emit_def)

theorem clear_stops_before_emptying_witness:
  "html5Qrcode (set_isScanning True (sample_scanner [SCAN_TYPE_CAMERA] False True))
     = Some \<lparr>isScanning = True\<rparr>
   \<and> fst (clear (Rejected (Thrown ''stop failed''))
          (set_isScanning True (sample_scanner [SCAN_TYPE_CAMERA] False True)))
       = Rejected (Thrown ''stop failed'')
   \<and> container (snd (clear (Rejected (Thrown ''stop failed''))
          (set_isScanning True (sample_scanner [SCAN_TYPE_CAMERA] False True))))
       = \<lparr>hasChildren = True, border = ''1px solid silver''\<rparr>
   \<and> container (snd (clear (Resolved ())
          (set_isScanning True (sample_scanner [SCAN_TYPE_CAMERA] False True))))
       = \<lparr>hasChildren = False, border = ''none''\<rparr>"
proof -
  let ?s = "set_isScanning True (sample_scanner [SCAN_TYPE_CAMERA] False True)"
  have h: "html5Qrcode ?s = Some \<lparr>isScanning = True\<rparr>" by code_simp
  have c: "container ?s = \<lparr>hasChildren = True, border = ''1px solid silver''\<rparr>" by code_simp
  from clear_stops_before_emptying
         [of ?s "Resolved ()" "\<lparr>isScanning = True\<rparr>" "Thrown ''stop failed''"] h c
  show ?thesis by simp
qed

section \<open>Camera enumeration that fails\<close>

text \<open>
  Claim C6. When \<^verbatim>\<open>Html5Qrcode.getCameras()\<close> rejects, the catch callback runs: it stores
  that permission is not granted, shows the error's text as the header message with the
  warning colours (a thrown string is shown as it is), and re-arms the request: the button
  that was passed is enabled again, and when none was passed a new, enabled button is
  appended.
\<close>

theorem enumeration_failure_rearms_request:
  "then_catch (getCameras_then L b) (getCameras_catch L b) (Rejected err) s
     = getCameras_catch L b err s
   \<and> hasPermission (persistedDataManager (getCameras_catch L b err s)) = False
   \<and> headerMessageContainer (getCameras_catch L b err s) =
       (headerMessageContainer s)
         \<lparr>innerText := error_text err, display := ''block'',
          background := ''rgba(203, 36, 49, 0.14)'', color := ''#cb2431''\<rparr>
   \<and> error_text (Thrown m) = m
   \<and> requestPermissionButtons (getCameras_catch L b err s) =
       (case b of
          Some i \<Rightarrow>
            if i < length (requestPermissionButtons s)
            then (requestPermissionButtons s)
                   [i := (requestPermissionButtons s ! i)\<lparr>disabled := False\<rparr>]
            else requestPermissionButtons s
        | None \<Rightarrow>
            requestPermissionButtons s @ [createElement\<lparr>innerText := cameraPermissionTitle L\<rparr>])
   \<and> disabled (createElement\<lparr>innerText := cameraPermissionTitle L\<rparr>) = False"
  by (simp add: then_catch_def getCameras_catch_def basic_defs createElement_def Let_def
      split: option.splits)

theorem enumeration_failure_rearms_request_witness:
  "map disabled (requestPermissionButtons
      (run sample_strings [Click_requestPermissionButton 0]
         (sample_scanner [SCAN_TYPE_CAMERA] False True))) = [True]
   \<and> map disabled (requestPermissionButtons
        (then_catch (getCameras_then sample_strings (Some 0)) (getCameras_catch sample_strings (Some 0))
           (Rejected (Thrown ''NotAllowedError : Permission denied''))
           (run sample_strings [Click_requestPermissionButton 0]
              (sample_scanner [SCAN_TYPE_CAMERA] False True)))) = [False]
   \<and> innerText (headerMessageContainer
        (then_catch (getCameras_then sample_strings (Some 0)) (getCameras_catch sample_strings (Some 0))
           (Rejected (Thrown ''NotAllowedError : Permission denied''))
           (run sample_strings [Click_requestPermissionButton 0]
              (sample_scanner [SCAN_TYPE_CAMERA] False True)))) = ''NotAllowedError : Permission denied''"
proof -
  let ?s = "run sample_strings [Click_requestPermissionButton 0]
              (sample_scanner [SCAN_TYPE_CAMERA] False True)"
  have b: "requestPermissionButtons ?s =
             [createElement\<lparr>innerText := ''Request Camera Permissions'', disabled := True\<rparr>]"
    by code_simp
  from enumeration_failure_rearms_request
         [of sample_strings "Some 0" "Thrown ''NotAllowedError : Permission denied''" ?s] b
  show ?thesis by simp
qed

section \<open>Construction without a config\<close>

text \<open>
  Claim C9. The constructor called with \<^verbatim>\<open>undefined\<close> for the config always throws: when the
  element is not valid it throws the validation error, and otherwise, the default
  configuration having been created, it throws on the read of \<^verbatim>\<open>rememberLastUsedCamera\<close> from
  the argument, which is \<^verbatim>\<open>undefined\<close> (or earlier, on the scan types, should the library
  default be an empty or repeating list). So a construction that succeeds was given a config
  object.
\<close>

theorem constructor_without_config_throws:
  "Html5QrcodeScanner_new K document stored elementOrId None verbose' =
     Inl (case (case elementOrId of
                  ElementId i \<Rightarrow> validateInputAsStringId document i
                | Element e \<Rightarrow> validateInputAsHTMLElement e) of
            Inl err \<Rightarrow> err
          | Inr _ \<Rightarrow>
              if DEFAULT_SUPPORTED_SCAN_TYPE K = [] \<or> \<not> distinct (DEFAULT_SUPPORTED_SCAN_TYPE K)
              then ConfigurationError
              else TypeError ''Cannot read properties of undefined (reading rememberLastUsedCamera)'')
   \<and> (\<forall>s. Html5QrcodeScanner_new K document stored elementOrId cfg verbose' = Inr s
          \<longrightarrow> cfg \<noteq> None)"
proof -
  have a: "Html5QrcodeScanner_new K document stored elementOrId None verbose' =
     Inl (case (case elementOrId of
                  ElementId i \<Rightarrow> validateInputAsStringId document i
                | Element e \<Rightarrow> validateInputAsHTMLElement e) of
            Inl err \<Rightarrow> err
          | Inr _ \<Rightarrow>
              if DEFAULT_SUPPORTED_SCAN_TYPE K = [] \<or> \<not> distinct (DEFAULT_SUPPORTED_SCAN_TYPE K)
              then ConfigurationError
              else TypeError ''Cannot read properties of undefined (reading rememberLastUsedCamera)'')"
    by (simp add: Html5QrcodeScanner_new_def createConfig_def ScanTypeSelector_new_def Let_def
        split: sum.splits list.splits ElementOrId.splits)
  have b: "cfg \<noteq> None"
    if "Html5QrcodeScanner_new K document stored elementOrId cfg verbose' = Inr s" for s
  proof
    assume "cfg = None"
    with that a show False by simp
  qed
  from a b show ?thesis by blast
qed

theorem constructor_without_config_throws_witness:
  "Html5QrcodeScanner_new sample_constants sample_document
       \<lparr>hasPermission = True, lastUsedCameraId = None\<rparr> (ElementId ''reader'') None (Some True)
     = Inl (TypeError ''Cannot read properties of undefined (reading rememberLastUsedCamera)'')
   \<and> \<not> isl (Html5QrcodeScanner_new sample_constants sample_document
               \<lparr>hasPermission = True, lastUsedCameraId = None\<rparr> (ElementId ''reader'')
               (Some (sample_config [SCAN_TYPE_CAMERA])) (Some True))
   \<and> Some (sample_config [SCAN_TYPE_CAMERA]) \<noteq> None"
proof -
  have v: "validateInputAsStringId sample_document ''reader''
             = Inr \<lparr>hasChildren = False, border = []\<rparr>"
    by (simp add: validateInputAsStringId_def sample_document_def)
  have d: "DEFAULT_SUPPORTED_SCAN_TYPE sample_constants = [SCAN_TYPE_CAMERA, SCAN_TYPE_FILE]"
    by (simp add: sample_constants_def)
  have n: "\<not> isl (Html5QrcodeScanner_new sample_constants sample_document
               \<lparr>hasPermission = True, lastUsedCameraId = None\<rparr> (ElementId ''reader'')
               (Some (sample_config [SCAN_TYPE_CAMERA])) (Some True))"
    by code_simp
  from constructor_without_config_throws
         [of sample_constants sample_document "\<lparr>hasPermission = True, lastUsedCameraId = None\<rparr>"
             "ElementId ''reader''" "Some True" "Some (sample_config [SCAN_TYPE_CAMERA])"] v d n
  show ?thesis by simp
qed

section \<open>The success callback that render installs\<close>

text \<open>
  Claim C10. The wrapper that \<^verbatim>\<open>render\<close> installs as success callback depends on whether the
  caller gave a callback. With one, every result is passed to it, a repeated one too. With
  none, a result whose text is the last match is dropped and the scanner is unchanged (the
  header message is not written), and any other text becomes the last match and the header's
  success message. Every \<^verbatim>\<open>render\<close> resets the last match to null.
\<close>

theorem success_callback_wrapper:
  "(callerSuccessCallback s \<longrightarrow>
      qrCodeSuccessCallback L decodedText result s =
        s\<lparr>trace := trace s @ [CallerSuccessCallback decodedText result]\<rparr>)
   \<and> (\<not> callerSuccessCallback s \<and> lastMatchFound s = Some decodedText \<longrightarrow>
        qrCodeSuccessCallback L decodedText result s = s)
   \<and> (\<not> callerSuccessCallback s \<and> lastMatchFound s \<noteq> Some decodedText \<longrightarrow>
        qrCodeSuccessCallback L decodedText result s =
          s\<lparr>lastMatchFound := Some decodedText,
            headerMessageContainer := (headerMessageContainer s)
              \<lparr>innerText := lastMatch L decodedText, display := ''block'',
               background := ''rgba(106, 175, 80, 0.26)'', color := ''#477735''\<rparr>\<rparr>)
   \<and> lastMatchFound (render L successGiven errorGiven s) = None
   \<and> callerSuccessCallback (render L successGiven errorGiven s) = successGiven"
  by (simp add: qrCodeSuccessCallback_def basic_defs render_def createBasicLayout_def
      createHeader_def setupInitialDashboard_def createSectionControlPanel_def
      createSectionSwap_def renderFileScanUi_def createPermissionsUi_def Let_def)

theorem success_callback_wrapper_witness:
  "\<not> callerSuccessCallback (sample_scanner [SCAN_TYPE_FILE] False False)
   \<and> lastMatchFound (sample_scanner [SCAN_TYPE_FILE] False False) \<noteq> Some ''abc''
   \<and> lastMatchFound
        (qrCodeSuccessCallback sample_strings ''abc'' ''r''
           (sample_scanner [SCAN_TYPE_FILE] False False)) = Some ''abc''
   \<and> qrCodeSuccessCallback sample_strings ''abc'' ''r''
        (qrCodeSuccessCallback sample_strings ''abc'' ''r''
           (sample_scanner [SCAN_TYPE_FILE] False False))
       = qrCodeSuccessCallback sample_strings ''abc'' ''r''
           (sample_scanner [SCAN_TYPE_FILE] False False)
   \<and> callerSuccessCallback (sample_scanner [SCAN_TYPE_FILE] False True)
   \<and> trace (qrCodeSuccessCallback sample_strings ''abc'' ''r''
        (qrCodeSuccessCallback sample_strings ''abc'' ''r''
           (sample_scanner [SCAN_TYPE_FILE] False True)))
       = [CallerSuccessCallback ''abc'' ''r'', CallerSuccessCallback ''abc'' ''r'']"
proof -
  let ?n = "sample_scanner [SCAN_TYPE_FILE] False False"
  let ?c = "sample_scanner [SCAN_TYPE_FILE] False True"
  let ?n1 = "qrCodeSuccessCallback sample_strings ''abc'' ''r'' ?n"
  let ?c1 = "qrCodeSuccessCallback sample_strings ''abc'' ''r'' ?c"
  have n0: "\<not> callerSuccessCallback ?n" "lastMatchFound ?n \<noteq> Some ''abc''" by code_simp+
  have c0: "callerSuccessCallback ?c" "trace ?c = []" by code_simp+
  note first = success_callback_wrapper [of ?n sample_strings "''abc''" "''r''"]
  from first n0 have n1: "\<not> callerSuccessCallback ?n1" "lastMatchFound ?n1 = Some ''abc''"
    by simp_all
  note second = success_callback_wrapper [of ?n1 sample_strings "''abc''" "''r''"]
  note third = success_callback_wrapper [of ?c sample_strings "''abc''" "''r''"]
  from third c0
  have c1: "callerSuccessCallback ?c1" "trace ?c1 = [CallerSuccessCallback ''abc'' ''r'']"
    by simp_all
  note fourth = success_callback_wrapper [of ?c1 sample_strings "''abc''" "''r''"]
  from n0 n1 second c0 c1 fourth show ?thesis by simp
qed

section \<open>The guard around a switch\<close>

lemma guard_onSwap_settled:
  "sectionSwapAllowed (then_catch onSwap_then onSwap_catch r s) = sectionSwapAllowed s"
  by (cases r) (simp_all add: then_catch_def onSwap_then_def onSwap_catch_def setHasPermission_def
      emit_def split: option.splits)

text \<open>
  Claim C1, as the code has it. A switch request that the listener accepts (the guard is true
  on entry) sets the guard false in its cleanup and true again as its last statement, so the
  guard is true when the listener returns. The listener does not wait for the permission
  check of the auto-start step: the check it started is still pending at that moment (one more
  pending check when the switch was from file to camera with stored permission). When a
  check settles, granted, revoked or failed, it leaves the guard as it is: true, when it
  settles right after the switch.
\<close>

theorem swap_guard_rearmed_at_return:
  assumes "sectionSwapAllowed s" and "permissionButton s = None"
  shows "\<not> sectionSwapAllowed (createSectionSwap_cleanup s)
         \<and> switchScanTypeLink_onclick L s =
             (createSectionSwap_swap L (createSectionSwap_cleanup s))\<lparr>sectionSwapAllowed := True\<rparr>
         \<and> sectionSwapAllowed (switchScanTypeLink_onclick L s)
         \<and> count_list (pending (switchScanTypeLink_onclick L s)) HasPermissions_onSwap =
             count_list (pending s) HasPermissions_onSwap +
               (if currentScanType s = SCAN_TYPE_FILE \<and> hasCameraPermissions s then 1 else 0)
         \<and> sectionSwapAllowed
             (then_catch onSwap_then onSwap_catch r (switchScanTypeLink_onclick L s))
         \<and> permissionButton (then_catch onSwap_then onSwap_catch r (switchScanTypeLink_onclick L s))
             = None
         \<and> (permissionButton s' = None \<longrightarrow>
              sectionSwapAllowed (then_catch onSwap_then onSwap_catch r s') = sectionSwapAllowed s')"
proof -
  have 1: "\<not> sectionSwapAllowed (createSectionSwap_cleanup s)"
    by (simp add: createSectionSwap_cleanup_def Let_def)
  have 2: "switchScanTypeLink_onclick L s =
             (createSectionSwap_swap L (createSectionSwap_cleanup s))\<lparr>sectionSwapAllowed := True\<rparr>"
    using assms(1) by (simp add: switchScanTypeLink_onclick_def)
  have 3: "sectionSwapAllowed (switchScanTypeLink_onclick L s)"
    by (simp add: 2)
  have 4: "count_list (pending (switchScanTypeLink_onclick L s)) HasPermissions_onSwap =
             count_list (pending s) HasPermissions_onSwap +
               (if currentScanType s = SCAN_TYPE_FILE \<and> hasCameraPermissions s then 1 else 0)"
    by (cases "currentScanType s")
       (simp_all add: 2 createSectionSwap_swap_def createSectionSwap_cleanup_def
          startCameraScanIfPermissionExistsOnSwap_def isCameraScanType_def hasCameraPermissions_def
          basic_defs Let_def)
  have 5: "sectionSwapAllowed
             (then_catch onSwap_then onSwap_catch r (switchScanTypeLink_onclick L s))"
    by (simp add: guard_onSwap_settled 3)
  have 6: "permissionButton (then_catch onSwap_then onSwap_catch r (switchScanTypeLink_onclick L s))
             = None"
    using assms(2) by (simp add: permissionButton_then_catch)
  have 7: "sectionSwapAllowed (then_catch onSwap_then onSwap_catch r s') = sectionSwapAllowed s'"
    by (rule guard_onSwap_settled)
  from 1 2 3 4 5 6 7 show ?thesis by blast
qed

theorem swap_guard_rearmed_at_return_witness:
  "sectionSwapAllowed (sample_scanner [SCAN_TYPE_FILE, SCAN_TYPE_CAMERA] True True)
   \<and> permissionButton (sample_scanner [SCAN_TYPE_FILE, SCAN_TYPE_CAMERA] True True) = None
   \<and> \<not> sectionSwapAllowed
         (createSectionSwap_cleanup (sample_scanner [SCAN_TYPE_FILE, SCAN_TYPE_CAMERA] True True))
   \<and> sectionSwapAllowed
        (switchScanTypeLink_onclick sample_strings
           (sample_scanner [SCAN_TYPE_FILE, SCAN_TYPE_CAMERA] True True))
   \<and> count_list
        (pending (switchScanTypeLink_onclick sample_strings
           (sample_scanner [SCAN_TYPE_FILE, SCAN_TYPE_CAMERA] True True)))
        HasPermissions_onSwap = 1
   \<and> sectionSwapAllowed
        (then_catch onSwap_then onSwap_catch (Resolved False)
           (switchScanTypeLink_onclick sample_strings
              (sample_scanner [SCAN_TYPE_FILE, SCAN_TYPE_CAMERA] True True)))
   \<and> sectionSwapAllowed
        (then_catch onSwap_then onSwap_catch (Rejected (Thrown ''query failed''))
           (switchScanTypeLink_onclick sample_strings
              (sample_scanner [SCAN_TYPE_FILE, SCAN_TYPE_CAMERA] True True)))"
proof -
  let ?s = "sample_scanner [SCAN_TYPE_FILE, SCAN_TYPE_CAMERA] True True"
  have a: "sectionSwapAllowed ?s" by code_simp
  have b: "permissionButton ?s = None" by code_simp
  have c: "currentScanType ?s = SCAN_TYPE_FILE" by code_simp
  have d: "hasCameraPermissions ?s" by code_simp
  have e: "count_list (pending ?s) HasPermissions_onSwap = 0" by code_simp
  note w1 = swap_guard_rearmed_at_return [OF a b, of sample_strings "Resolved False"]
  note w2 = swap_guard_rearmed_at_return
              [OF a b, of sample_strings "Rejected (Thrown ''query failed'')"]
  have g1: "\<not> sectionSwapAllowed (createSectionSwap_cleanup ?s)"
    using w1 by blast
  have g3: "sectionSwapAllowed (switchScanTypeLink_onclick sample_strings ?s)"
    using w1 by blast
  have "count_list (pending (switchScanTypeLink_onclick sample_strings ?s)) HasPermissions_onSwap =
          count_list (pending ?s) HasPermissions_onSwap +
            (if currentScanType ?s = SCAN_TYPE_FILE \<and> hasCameraPermissions ?s then 1 else 0)"
    using w1 by blast
  with c d e
  have g4: "count_list (pending (switchScanTypeLink_onclick sample_strings ?s))
              HasPermissions_onSwap = 1"
    by simp
  have g5: "sectionSwapAllowed
              (then_catch onSwap_then onSwap_catch (Resolved False)
                 (switchScanTypeLink_onclick sample_strings ?s))"
    using w1 by blast
  have g6: "sectionSwapAllowed
              (then_catch onSwap_then onSwap_catch (Rejected (Thrown ''query failed''))
                 (switchScanTypeLink_onclick sample_strings ?s))"
    using w2 by blast
  from a b g1 g3 g4 g5 g6 show ?thesis by blast
qed

text \<open>
  The claim as stated fails: the guard is true again before the transition has settled, so a
  second and a third switch are accepted while the permission check of the first is pending,
  and two such checks are in flight at once.
\<close>

theorem two_swaps_in_flight:
  "sectionSwapAllowed (sample_scanner [SCAN_TYPE_FILE, SCAN_TYPE_CAMERA] True True)
   \<and> sectionSwapAllowed
        (run sample_strings [Click_switchScanTypeLink]
           (sample_scanner [SCAN_TYPE_FILE, SCAN_TYPE_CAMERA] True True))
   \<and> List.member
        (pending (run sample_strings [Click_switchScanTypeLink]
           (sample_scanner [SCAN_TYPE_FILE, SCAN_TYPE_CAMERA] True True)))
        HasPermissions_onSwap
   \<and> sectionSwapAllowed
        (run sample_strings [Click_switchScanTypeLink, Click_switchScanTypeLink]
           (sample_scanner [SCAN_TYPE_FILE, SCAN_TYPE_CAMERA] True True))
   \<and> currentScanType
        (run sample_strings
           [Click_switchScanTypeLink, Click_switchScanTypeLink, Click_switchScanTypeLink]
           (sample_scanner [SCAN_TYPE_FILE, SCAN_TYPE_CAMERA] True True)) = SCAN_TYPE_CAMERA
   \<and> \<not> count_list
          (pending (run sample_strings
             [Click_switchScanTypeLink, Click_switchScanTypeLink, Click_switchScanTypeLink]
             (sample_scanner [SCAN_TYPE_FILE, SCAN_TYPE_CAMERA] True True)))
          HasPermissions_onSwap \<le> 1"
  by code_simp

section \<open>Auto-start after a switch to camera\<close>

text \<open>
  Claim C3, at the step where the code departs from it. In every state that construction,
  \<^verbatim>\<open>render\<close> and events reach, \<open>permissionButton\<close> is null. So when the live permission
  check of a switch to camera reports that permission is still granted, the callback finds no
  button: it logs, throws, and its own catch callback stores that permission is not granted.
  No button is clicked and no camera enumeration starts.
\<close>

theorem auto_start_on_swap_finds_no_button:
  assumes "Html5QrcodeScanner_new K document stored elementOrId cfg verbose' = Inr s0"
    and "s = run L events (render L successGiven errorGiven s0)"
  shows "permissionButton s = None
         \<and> then_catch onSwap_then onSwap_catch (Resolved True) s =
             s\<lparr>trace := trace s @ [LogError ''Permission button not found, fail;''],
               persistedDataManager := (persistedDataManager s)\<lparr>hasPermission := False\<rparr>\<rparr>"
proof -
  have none: "permissionButton s = None"
    using permissionButton_reachable [OF assms(1)] assms(2) by simp
  then show ?thesis
    by (simp add: then_catch_def onSwap_then_def onSwap_catch_def setHasPermission_def emit_def)
qed

theorem auto_start_on_swap_finds_no_button_witness:
  "Html5QrcodeScanner_new sample_constants sample_document
       \<lparr>hasPermission = True, lastUsedCameraId = None\<rparr> (ElementId ''reader'')
       (Some (sample_config [SCAN_TYPE_FILE, SCAN_TYPE_CAMERA])) (Some True)
     = Inr (projr (Html5QrcodeScanner_new sample_constants sample_document
              \<lparr>hasPermission = True, lastUsedCameraId = None\<rparr> (ElementId ''reader'')
              (Some (sample_config [SCAN_TYPE_FILE, SCAN_TYPE_CAMERA])) (Some True)))
   \<and> hasPermission (persistedDataManager
        (run sample_strings [Click_switchScanTypeLink]
           (sample_scanner [SCAN_TYPE_FILE, SCAN_TYPE_CAMERA] True True)))
   \<and> \<not> hasPermission (persistedDataManager
        (then_catch onSwap_then onSwap_catch (Resolved True)
           (run sample_strings [Click_switchScanTypeLink]
              (sample_scanner [SCAN_TYPE_FILE, SCAN_TYPE_CAMERA] True True))))
   \<and> trace
        (then_catch onSwap_then onSwap_catch (Resolved True)
           (run sample_strings [Click_switchScanTypeLink]
              (sample_scanner [SCAN_TYPE_FILE, SCAN_TYPE_CAMERA] True True)))
       = [Call_hasPermissions, LogError ''Permission button not found, fail;'']
   \<and> map disabled (requestPermissionButtons
        (then_catch onSwap_then onSwap_catch (Resolved True)
           (run sample_strings [Click_switchScanTypeLink]
              (sample_scanner [SCAN_TYPE_FILE, SCAN_TYPE_CAMERA] True True)))) = [False]
   \<and> cameraSelectUi
        (then_catch onSwap_then onSwap_catch (Resolved True)
           (run sample_strings [Click_switchScanTypeLink]
              (sample_scanner [SCAN_TYPE_FILE, SCAN_TYPE_CAMERA] True True))) = None"
proof -
  let ?new = "Html5QrcodeScanner_new sample_constants sample_document
                \<lparr>hasPermission = True, lastUsedCameraId = None\<rparr> (ElementId ''reader'')
                (Some (sample_config [SCAN_TYPE_FILE, SCAN_TYPE_CAMERA])) (Some True)"
  let ?s = "run sample_strings [Click_switchScanTypeLink]
              (sample_scanner [SCAN_TYPE_FILE, SCAN_TYPE_CAMERA] True True)"
  have "\<not> isl ?new" by code_simp
  then have n: "?new = Inr (projr ?new)" by simp
  have r: "?s = run sample_strings [Click_switchScanTypeLink]
                  (render sample_strings True True (projr ?new))"
    by (simp add: sample_scanner_def)
  have b: "hasPermission (persistedDataManager ?s)" by code_simp
  have c: "trace ?s = [Call_hasPermissions]" by code_simp
  have d: "map disabled (requestPermissionButtons ?s) = [False]" by code_simp
  have e: "cameraSelectUi ?s = None" by code_simp
  note w = auto_start_on_swap_finds_no_button [OF n r]
  have f: "then_catch onSwap_then onSwap_catch (Resolved True) ?s =
             ?s\<lparr>trace := trace ?s @ [LogError ''Permission button not found, fail;''],
               persistedDataManager := (persistedDataManager ?s)\<lparr>hasPermission := False\<rparr>\<rparr>"
    using w by blast
  have g: "\<not> hasPermission (persistedDataManager
             (then_catch onSwap_then onSwap_catch (Resolved True) ?s))"
    by (simp add: f)
  have h: "trace (then_catch onSwap_then onSwap_catch (Resolved True) ?s)
             = [Call_hasPermissions, LogError ''Permission button not found, fail;'']"
    by (simp add: f c)
  have i: "map disabled (requestPermissionButtons
             (then_catch onSwap_then onSwap_catch (Resolved True) ?s)) = [False]"
    by (simp add: f d)
  have j: "cameraSelectUi (then_catch onSwap_then onSwap_catch (Resolved True) ?s) = None"
    by (simp add: f e)
  from n b g h i j show ?thesis by blast
qed

section \<open>Starting a capture session\<close>

text \<open>
  Claim C4, as the code has it. The click listener of the start button stores the chosen
  camera id in its first part, which calls nothing and leaves nothing pending, and only then
  calls \<^verbatim>\<open>html5Qrcode.start\<close>: the call is made in the state that already stores the id.
  Neither outcome of the start changes what is stored. When the start fails, the engine is
  left as it was, the header shows the error's text with the warning colours (a thrown string
  as it is), the start button is enabled and shown again with its start text, the camera
  selection is enabled, and the swap link is allowed again when there is more than one scan
  type.
\<close>

theorem start_stores_camera_before_start:
  "getLastUsedCameraId (cameraActionStartButton_onclick_before_start L ui s)
     = Some (selectedValue ui)
   \<and> trace (cameraActionStartButton_onclick_before_start L ui s) = trace s
   \<and> pending (cameraActionStartButton_onclick_before_start L ui s) = pending s
   \<and> (html5Qrcode s = Some q \<longrightarrow>
        cameraActionStartButton_onclick L ui s =
          (cameraActionStartButton_onclick_before_start L ui s)
            \<lparr>trace := trace s @ [Call_start (selectedValue ui)],
             pending := pending s @ [Html5Qrcode_start]\<rparr>
        \<and> trace (cameraActionStartButton_onclick L ui s) = trace s @ [Call_start (selectedValue ui)]
        \<and> pending (cameraActionStartButton_onclick L ui s) = pending s @ [Html5Qrcode_start])
   \<and> getLastUsedCameraId (cameraActionStartButton_onclick L ui s) = Some (selectedValue ui)
   \<and> persistedDataManager (then_catch (start_then L) (start_catch L) r s)
       = persistedDataManager s
   \<and> settle_promise L Html5Qrcode_start (Started (Rejected err)) s = Some (start_catch L err s)
   \<and> html5Qrcode (start_catch L err s) = html5Qrcode s
   \<and> headerMessageContainer (start_catch L err s) =
       (headerMessageContainer s)
         \<lparr>innerText := error_text err, display := ''block'',
          background := ''rgba(203, 36, 49, 0.14)'', color := ''#cb2431''\<rparr>
   \<and> error_text (Thrown m) = m
   \<and> cameraActionStartButton (start_catch L err s) =
       (cameraActionStartButton s)
         \<lparr>innerText := scanButtonStartScanningText L, opacity := ''1'', disabled := False,
          display := ''inline-block''\<rparr>
   \<and> cameraSelectUi (start_catch L err s) =
       map_option (\<lambda>ui. ui\<lparr>selectDisabled := False\<rparr>) (cameraSelectUi s)
   \<and> sectionSwapAllowed (start_catch L err s) =
       (hasMoreThanOneScanType s \<or> sectionSwapAllowed s)"
proof -
  have before:
    "getLastUsedCameraId (cameraActionStartButton_onclick_before_start L ui s)
       = Some (selectedValue ui)
     \<and> trace (cameraActionStartButton_onclick_before_start L ui s) = trace s
     \<and> pending (cameraActionStartButton_onclick_before_start L ui s) = pending s"
    by (simp add: cameraActionStartButton_onclick_before_start_def basic_defs
        getLastUsedCameraId_def hasMoreThanOneScanType_def Let_def)
  have html: "html5Qrcode (cameraActionStartButton_onclick_before_start L ui s) = html5Qrcode s"
    by (simp add: cameraActionStartButton_onclick_before_start_def basic_defs
        hasMoreThanOneScanType_def Let_def)
  have click:
    "html5Qrcode s = Some q \<longrightarrow>
       cameraActionStartButton_onclick L ui s =
         (cameraActionStartButton_onclick_before_start L ui s)
           \<lparr>trace := trace s @ [Call_start (selectedValue ui)],
            pending := pending s @ [Html5Qrcode_start]\<rparr>
       \<and> trace (cameraActionStartButton_onclick L ui s) = trace s @ [Call_start (selectedValue ui)]
       \<and> pending (cameraActionStartButton_onclick L ui s) = pending s @ [Html5Qrcode_start]"
    using before html by (simp add: cameraActionStartButton_onclick_def emit_def await_def Let_def)
  have stored:
    "getLastUsedCameraId (cameraActionStartButton_onclick L ui s) = Some (selectedValue ui)"
    using before
    by (cases "html5Qrcode s")
       (simp_all add: cameraActionStartButton_onclick_def html emit_def await_def
          getLastUsedCameraId_def Let_def)
  have settled: "persistedDataManager (then_catch (start_then L) (start_catch L) r s)
                   = persistedDataManager s"
    by (cases r)
       (simp_all add: then_catch_def start_then_def start_catch_def basic_defs
          hasMoreThanOneScanType_def Let_def split: option.splits)
  have failed:
    "settle_promise L Html5Qrcode_start (Started (Rejected err)) s = Some (start_catch L err s)
     \<and> html5Qrcode (start_catch L err s) = html5Qrcode s
     \<and> headerMessageContainer (start_catch L err s) =
         (headerMessageContainer s)
           \<lparr>innerText := error_text err, display := ''block'',
            background := ''rgba(203, 36, 49, 0.14)'', color := ''#cb2431''\<rparr>
     \<and> cameraActionStartButton (start_catch L err s) =
         (cameraActionStartButton s)
           \<lparr>innerText := scanButtonStartScanningText L, opacity := ''1'', disabled := False,
            display := ''inline-block''\<rparr>
     \<and> cameraSelectUi (start_catch L err s) =
         map_option (\<lambda>ui. ui\<lparr>selectDisabled := False\<rparr>) (cameraSelectUi s)
     \<and> sectionSwapAllowed (start_catch L err s) =
         (hasMoreThanOneScanType s \<or> sectionSwapAllowed s)"
    by (simp add: then_catch_def start_catch_def basic_defs hasMoreThanOneScanType_def Let_def)
  from before click stored settled failed show ?thesis by simp
qed

theorem start_stores_camera_before_start_witness:
  "html5Qrcode
     (run sample_strings
        [Click_requestPermissionButton 0, Settle 1 (Cameras (Resolved sample_cameras))]
        (sample_scanner [SCAN_TYPE_CAMERA] False True)) = Some \<lparr>isScanning = False\<rparr>
   \<and> getLastUsedCameraId
        (run sample_strings
           [Click_requestPermissionButton 0, Settle 1 (Cameras (Resolved sample_cameras))]
           (sample_scanner [SCAN_TYPE_CAMERA] False True)) = None
   \<and> getLastUsedCameraId
        (cameraActionStartButton_onclick_before_start sample_strings
           (CameraSelectionUi_create sample_cameras)
           (run sample_strings
              [Click_requestPermissionButton 0, Settle 1 (Cameras (Resolved sample_cameras))]
              (sample_scanner [SCAN_TYPE_CAMERA] False True))) = Some ''cam-1''
   \<and> trace
        (cameraActionStartButton_onclick_before_start sample_strings
           (CameraSelectionUi_create sample_cameras)
           (run sample_strings
              [Click_requestPermissionButton 0, Settle 1 (Cameras (Resolved sample_cameras))]
              (sample_scanner [SCAN_TYPE_CAMERA] False True))) = [Call_getCameras]
   \<and> trace
        (cameraActionStartButton_onclick sample_strings (CameraSelectionUi_create sample_cameras)
           (run sample_strings
              [Click_requestPermissionButton 0, Settle 1 (Cameras (Resolved sample_cameras))]
              (sample_scanner [SCAN_TYPE_CAMERA] False True)))
       = [Call_getCameras, Call_start ''cam-1'']
   \<and> innerText (headerMessageContainer
        (start_catch sample_strings (Thrown ''NotReadableError'')
           (run sample_strings
              [Click_requestPermissionButton 0, Settle 1 (Cameras (Resolved sample_cameras))]
              (sample_scanner [SCAN_TYPE_CAMERA] False True)))) = ''NotReadableError''"
proof -
  let ?s = "run sample_strings
              [Click_requestPermissionButton 0, Settle 1 (Cameras (Resolved sample_cameras))]
              (sample_scanner [SCAN_TYPE_CAMERA] False True)"
  let ?ui = "CameraSelectionUi_create sample_cameras"
  have a: "html5Qrcode ?s = Some \<lparr>isScanning = False\<rparr>" by code_simp
  have b: "selectedValue ?ui = ''cam-1''" by code_simp
  have c: "getLastUsedCameraId ?s = None" by code_simp
  have t: "trace ?s = [Call_getCameras]" by code_simp
  note w = start_stores_camera_before_start
             [where L = sample_strings and ui = ?ui and s = ?s and q = "\<lparr>isScanning = False\<rparr>"
                and r = "Resolved (sample_capabilities, True)"
                and err = "Thrown ''NotReadableError''" and m = "''NotReadableError''"]
  have g1: "getLastUsedCameraId (cameraActionStartButton_onclick_before_start sample_strings ?ui ?s)
              = Some ''cam-1''"
    using w b by simp
  have g2: "trace (cameraActionStartButton_onclick_before_start sample_strings ?ui ?s)
              = [Call_getCameras]"
    using w t by simp
  have "trace (cameraActionStartButton_onclick sample_strings ?ui ?s)
          = trace ?s @ [Call_start (selectedValue ?ui)]"
    using w a by blast
  then have g3: "trace (cameraActionStartButton_onclick sample_strings ?ui ?s)
                   = [Call_getCameras, Call_start ''cam-1'']"
    using b t by simp
  have "headerMessageContainer (start_catch sample_strings (Thrown ''NotReadableError'') ?s) =
          (headerMessageContainer ?s)
            \<lparr>innerText := error_text (Thrown ''NotReadableError''), display := ''block'',
             background := ''rgba(203, 36, 49, 0.14)'', color := ''#cb2431''\<rparr>"
    using w by blast
  then have g4: "innerText (headerMessageContainer
                   (start_catch sample_strings (Thrown ''NotReadableError'') ?s))
                 = ''NotReadableError''"
    by simp
  from a c g1 g2 g3 g4 show ?thesis by blast
qed

text \<open>
  The claim as stated fails: after a start that the engine rejects, the camera id that was
  chosen is stored.
\<close>

theorem start_failure_keeps_stored_camera:
  "getLastUsedCameraId
     (run sample_strings
        [Click_requestPermissionButton 0, Settle 1 (Cameras (Resolved sample_cameras))]
        (sample_scanner [SCAN_TYPE_CAMERA] False True)) = None
   \<and> getLastUsedCameraId
     (run sample_strings
        [Click_requestPermissionButton 0, Settle 1 (Cameras (Resolved sample_cameras)),
         Click_cameraActionStartButton,
         Settle 1 (Started (Rejected (Thrown ''NotReadableError: Could not start video source'')))]
        (sample_scanner [SCAN_TYPE_CAMERA] False True)) = Some ''cam-1''
   \<and> html5Qrcode
     (run sample_strings
        [Click_requestPermissionButton 0, Settle 1 (Cameras (Resolved sample_cameras)),
         Click_cameraActionStartButton,
         Settle 1 (Started (Rejected (Thrown ''NotReadableError: Could not start video source'')))]
        (sample_scanner [SCAN_TYPE_CAMERA] False True)) = Some \<lparr>isScanning = False\<rparr>"
  by code_simp

section \<open>Camera enumeration that finds no camera\<close>

text \<open>
  Claim C7, at the step where the code departs from it. When the enumeration started by a
  click on the permission button resolves with no camera, permission is stored as granted,
  the header shows the no-camera warning and the swap link is allowed again, but the
  permission buttons are left as they were: the button that was clicked, disabled by its own
  listener, stays disabled, and a click on it does nothing.
\<close>

theorem no_camera_found_leaves_button_disabled:
  "getCameras_then L (Some i) [] s =
     (None,
      s\<lparr>persistedDataManager := (persistedDataManager s)\<lparr>hasPermission := True\<rparr>,
        sectionSwapAllowed := (hasMoreThanOneScanType s \<or> sectionSwapAllowed s),
        switchScanTypeLink :=
          (if hasMoreThanOneScanType s then (switchScanTypeLink s)\<lparr>display := ''inline-block''\<rparr>
           else switchScanTypeLink s),
        headerMessageContainer := (headerMessageContainer s)
          \<lparr>innerText := noCameraFound L, display := ''block'',
           background := ''rgba(203, 36, 49, 0.14)'', color := ''#cb2431''\<rparr>\<rparr>)
   \<and> requestPermissionButtons (snd (getCameras_then L (Some i) [] s)) = requestPermissionButtons s
   \<and> (i < length (requestPermissionButtons s) \<and> disabled (requestPermissionButtons s ! i) \<longrightarrow>
        requestPermissionButton_click L i (snd (getCameras_then L (Some i) [] s))
          = snd (getCameras_then L (Some i) [] s))"
  by (simp add: getCameras_then_def basic_defs hasMoreThanOneScanType_def
      requestPermissionButton_click_def Let_def)

theorem no_camera_found_leaves_button_disabled_witness:
  "map disabled (requestPermissionButtons
      (run sample_strings [Click_requestPermissionButton 0]
         (sample_scanner [SCAN_TYPE_CAMERA] False True))) = [True]
   \<and> map disabled (requestPermissionButtons
        (snd (getCameras_then sample_strings (Some 0) []
           (run sample_strings [Click_requestPermissionButton 0]
              (sample_scanner [SCAN_TYPE_CAMERA] False True))))) = [True]
   \<and> requestPermissionButton_click sample_strings 0
        (snd (getCameras_then sample_strings (Some 0) []
           (run sample_strings [Click_requestPermissionButton 0]
              (sample_scanner [SCAN_TYPE_CAMERA] False True))))
       = snd (getCameras_then sample_strings (Some 0) []
           (run sample_strings [Click_requestPermissionButton 0]
              (sample_scanner [SCAN_TYPE_CAMERA] False True)))"
proof -
  let ?s = "run sample_strings [Click_requestPermissionButton 0]
              (sample_scanner [SCAN_TYPE_CAMERA] False True)"
  have b: "requestPermissionButtons ?s =
             [createElement\<lparr>innerText := ''Request Camera Permissions'', disabled := True\<rparr>]"
    by code_simp
  note w = no_camera_found_leaves_button_disabled [of sample_strings 0 ?s]
  have k: "requestPermissionButtons (snd (getCameras_then sample_strings (Some 0) [] ?s))
             = requestPermissionButtons ?s"
    using w by blast
  have d: "0 < length (requestPermissionButtons ?s) \<and> disabled (requestPermissionButtons ?s ! 0)"
    using b by simp
  have c: "requestPermissionButton_click sample_strings 0
             (snd (getCameras_then sample_strings (Some 0) [] ?s))
           = snd (getCameras_then sample_strings (Some 0) [] ?s)"
    using w d by blast
  from k b c show ?thesis by simp
qed

section \<open>Zoom\<close>




end
